theory Spec2Isabelle
  imports Complex_Main
begin

section \<open>JavaScript values\<close>

text \<open>
  The server is TypeScript whose payloads are typed \<open>any\<close>. A value received from the
  backend or handed to the HTTP client is a \<open>jsval\<close>; an object is the list of its own
  properties in the order in which JavaScript enumerates them, one entry per key. A string
  is the list of the bytes of its UTF-8 encoding: equality, emptiness, concatenation and
  the occurrence of one string in another are those of the text. What depends on Unicode's
  tables, \<open>String.prototype.toLowerCase\<close>, is not fixed by the model but taken as a
  parameter (with the backend, below).
\<close>

datatype jsval =
    JUndefined
  | JNull
  | JBool bool
  | JNum real
  | JStr string
  | JArr "jsval list"
  | JObj "(string \<times> jsval) list"

text \<open>The conversion to boolean that \<open>if (v)\<close>, \<open>!v\<close>, \<open>a && b\<close> and \<open>a || b\<close> apply.\<close>

fun truthy :: "jsval \<Rightarrow> bool" where
  "truthy JUndefined = False"
| "truthy JNull = False"
| "truthy (JBool b) = b"
| "truthy (JNum n) = (n \<noteq> 0)"
| "truthy (JStr s) = (s \<noteq> [])"
| "truthy (JArr xs) = True"
| "truthy (JObj ps) = True"

fun nullish :: "jsval \<Rightarrow> bool" where
  "nullish JUndefined = True"
| "nullish JNull = True"
| "nullish v = False"

text \<open>
  \<open>v.k\<close> for a value that is neither \<open>undefined\<close> nor \<open>null\<close>: the property of an object,
  \<open>undefined\<close> where the object has none or the value is a primitive. (The names read in
  this program are never built-in properties of strings or arrays.)
\<close>

fun get_prop :: "jsval \<Rightarrow> string \<Rightarrow> jsval" where
  "get_prop (JObj ps) k = (case map_of ps k of None \<Rightarrow> JUndefined | Some v \<Rightarrow> v)"
| "get_prop v k = JUndefined"

definition js_or :: "jsval \<Rightarrow> jsval \<Rightarrow> jsval" where
  "js_or a b = (if truthy a then a else b)"

text \<open>\<open>o[k] = v\<close>, and a key of an object literal: an existing key keeps its place.\<close>

fun set_prop :: "('k \<times> 'v) list \<Rightarrow> 'k \<Rightarrow> 'v \<Rightarrow> ('k \<times> 'v) list" where
  "set_prop [] k v = [(k, v)]"
| "set_prop ((k', v') # ps) k v = (if k' = k then (k, v) # ps else (k', v') # set_prop ps k v)"

text \<open>
  What \<open>JSON.stringify\<close> keeps of a value, which is what the HTTP client puts on the
  wire: a property whose value is \<open>undefined\<close> is dropped, an \<open>undefined\<close> array element
  becomes \<open>null\<close>.
\<close>

fun to_json :: "jsval \<Rightarrow> jsval"
  and to_json_props :: "(string \<times> jsval) list \<Rightarrow> (string \<times> jsval) list"
  and to_json_elems :: "jsval list \<Rightarrow> jsval list" where
  "to_json (JObj ps) = JObj (to_json_props ps)"
| "to_json (JArr xs) = JArr (to_json_elems xs)"
| "to_json JUndefined = JUndefined"
| "to_json JNull = JNull"
| "to_json (JBool b) = JBool b"
| "to_json (JNum n) = JNum n"
| "to_json (JStr s) = JStr s"
| "to_json_props [] = []"
| "to_json_props ((k, v) # ps) =
     (if v = JUndefined then to_json_props ps else (k, to_json v) # to_json_props ps)"
| "to_json_elems [] = []"
| "to_json_elems (v # vs) = (if v = JUndefined then JNull else to_json v) # to_json_elems vs"

definition opt_str :: "string option \<Rightarrow> jsval" where
  "opt_str s = (case s of None \<Rightarrow> JUndefined | Some t \<Rightarrow> JStr t)"

definition str_truthy :: "string option \<Rightarrow> bool" where
  "str_truthy s = (case s of None \<Rightarrow> False | Some t \<Rightarrow> t \<noteq> [])"

subsection \<open>Strings\<close>

definition is_digit :: "char \<Rightarrow> bool" where
  "is_digit c = (c \<in> set ''0123456789'')"

fun starts_with :: "string \<Rightarrow> string \<Rightarrow> bool" where
  "starts_with [] s = True"
| "starts_with (p # ps) [] = False"
| "starts_with (p # ps) (c # cs) = (p = c \<and> starts_with ps cs)"

text \<open>\<open>s.includes(t)\<close>: \<open>t\<close> occurs in \<open>s\<close> as a contiguous run.\<close>

fun str_includes :: "string \<Rightarrow> string \<Rightarrow> bool" where
  "str_includes [] t = (t = [])"
| "str_includes (c # cs) t = (starts_with t (c # cs) \<or> str_includes cs t)"

text \<open>
  Decimal rendering of a non-negative integer, as a template literal prints a number that
  holds it exactly; every integer below \<open>2^53\<close> is held exactly.
\<close>

definition digit_char :: "nat \<Rightarrow> char" where
  "digit_char d = ''0123456789'' ! d"

fun show_nat :: "nat \<Rightarrow> string" where
  "show_nat n = (if n < 10 then [digit_char n] else show_nat (n div 10) @ [digit_char (n mod 10)])"

declare show_nat.simps [simp del]

fun join :: "string \<Rightarrow> string list \<Rightarrow> string" where
  "join sep [] = []"
| "join sep [x] = x"
| "join sep (x # y # ys) = x @ sep @ join sep (y # ys)"

text \<open>
  The order in which an object's own properties are enumerated, which is the order of the
  query parameters that the HTTP client writes: first the keys that are array indices (the
  decimal numerals without a leading zero of the integers up to \<open>2^32 - 2\<close>) by ascending
  value, then the other keys in the order of their insertion.
\<close>

definition digit_value :: "char \<Rightarrow> nat" where
  "digit_value c =
     (case map_of (zip ''0123456789'' [0, 1, 2, 3, 4, 5, 6, 7, 8, 9]) c of
        None \<Rightarrow> 0
      | Some d \<Rightarrow> d)"

definition decimal_value :: "string \<Rightarrow> nat" where
  "decimal_value s = foldl (\<lambda>n c. 10 * n + digit_value c) 0 s"

definition is_array_index :: "string \<Rightarrow> bool" where
  "is_array_index k =
     (k \<noteq> [] \<and> list_all is_digit k \<and> (k = ''0'' \<or> hd k \<noteq> CHR ''0'')
      \<and> decimal_value k < 2 ^ 32 - 1)"

definition own_property_order :: "(string \<times> 'v) list \<Rightarrow> (string \<times> 'v) list" where
  "own_property_order ps =
     sort_key (\<lambda>p. decimal_value (fst p)) (filter (\<lambda>p. is_array_index (fst p)) ps)
       @ filter (\<lambda>p. \<not> is_array_index (fst p)) ps"

section \<open>The HTTP collaborator\<close>

text \<open>
  What the client's axios instance is asked is a \<open>request\<close>; \<open>params\<close> holds the query
  parameters that are not \<open>undefined\<close>, \<open>body\<close> the JSON put on the wire. The request
  header carrying the API key is the same on every request and is left out.
\<close>

record request =
  verb :: string
  url :: string
  params :: "(string \<times> string) list"
  body :: jsval

text \<open>
  A rejected promise carries an error: an axios error (with the status of the response if
  one came, and whether a request went out), or another error. \<open>message\<close> is its text.
\<close>

datatype js_error =
    AxiosError "nat option" bool string
  | Error string
  | TypeError string

fun message :: "js_error \<Rightarrow> string" where
  "message (AxiosError st rq m) = m"
| "message (Error m) = m"
| "message (TypeError m) = m"

fun isAxiosError :: "js_error \<Rightarrow> bool" where
  "isAxiosError (AxiosError st rq m) = True"
| "isAxiosError e = False"

record 'd response =
  status :: nat
  data :: 'd

datatype 'd settled = Resolved "'d response" | Rejected js_error

text \<open>
  An answer of the backend: how the request's promise settles, and whether it does so only
  after the 30 second timer that \<open>validateCredentials\<close> races each of its requests with.
\<close>

record 'd reply =
  late :: bool
  settled :: "'d settled"

text \<open>
  The answers to \<open>GET /workspace\<close> are taken in the shape of Rally's query envelope; every
  property may be missing. \<open>ObjectID\<close> is a non-negative integer, as Rally's identifiers
  are.
\<close>

record workspace_obj =
  Name :: "string option"
  ObjectID :: "nat option"
  ref :: "string option"

record query_result =
  Results :: "workspace_obj list option"
  Errors :: "string list option"

record query_data =
  QueryResult :: "query_result option"

text \<open>
  The backend is a parameter of the model: a state \<open>'w\<close> of its own and one answer function
  for each resource the client addresses. The record also carries the other thing that the
  program takes from outside and the model leaves open, the runtime's \<open>toLowerCase\<close> on
  strings. \<open>'w env\<close> is everything outside the client: the backend's state, the requests
  issued so far, and the progress notifications written.
\<close>

record 'w backend =
  subscription :: "request \<Rightarrow> 'w \<Rightarrow> jsval reply \<times> 'w"
  workspaces :: "request \<Rightarrow> 'w \<Rightarrow> query_data option reply \<times> 'w"
  artifacts :: "request \<Rightarrow> 'w \<Rightarrow> jsval reply \<times> 'w"
  toLowerCase :: "string \<Rightarrow> string"

record 'w env =
  world :: 'w
  calls :: "request list"
  progress :: "(string \<times> nat \<times> string) list"

text \<open>\<open>await client.get(...)\<close> and the like: the request is issued, the promise settles.\<close>

definition await_request ::
  "(request \<Rightarrow> 'w \<Rightarrow> 'd reply \<times> 'w) \<Rightarrow> request \<Rightarrow> 'w env \<Rightarrow> (js_error + 'd response) \<times> 'w env" where
  "await_request answer rq e =
     (case answer rq (world e) of
        (r, w') \<Rightarrow>
          ((case settled r of Resolved x \<Rightarrow> Inr x | Rejected err \<Rightarrow> Inl err),
           e\<lparr>world := w', calls := calls e @ [rq]\<rparr>))"

text \<open>\<open>await Promise.race([client.get(...), timer])\<close>: a late answer loses to the timer.\<close>

definition await_raced ::
  "(request \<Rightarrow> 'w \<Rightarrow> 'd reply \<times> 'w) \<Rightarrow> request \<Rightarrow> string \<Rightarrow> 'w env \<Rightarrow> (js_error + 'd response) \<times> 'w env" where
  "await_raced answer rq timeout_message e =
     (case answer rq (world e) of
        (r, w') \<Rightarrow>
          ((if late r then Inl (Error timeout_message)
            else (case settled r of Resolved x \<Rightarrow> Inr x | Rejected err \<Rightarrow> Inl err)),
           e\<lparr>world := w', calls := calls e @ [rq]\<rparr>))"

section \<open>The Rally client\<close>

record config =
  rallyApiKey :: string
  rallyWorkspace :: string
  rallyProject :: "string option"

record rally_client =
  workspace :: string
  workspaceRef :: "string option"
  project :: "string option"
  workspaceIsNumeric :: bool

text \<open>The constructor; \<open>/^\d+$/\<close> holds of a non-empty string of digits.\<close>

definition RallyClient :: "config \<Rightarrow> rally_client" where
  "RallyClient cfg =
     \<lparr>workspace = rallyWorkspace cfg,
      workspaceRef = None,
      project = rallyProject cfg,
      workspaceIsNumeric = (rallyWorkspace cfg \<noteq> [] \<and> list_all is_digit (rallyWorkspace cfg))\<rparr>"

record validation =
  valid :: bool
  error :: "string option"

subsection \<open>validateCredentials\<close>

definition subscription_request :: request where
  "subscription_request = \<lparr>verb = ''GET'', url = ''/subscription'', params = [], body = JUndefined\<rparr>"

definition workspaceQuery :: "rally_client \<Rightarrow> string" where
  "workspaceQuery c =
     (if workspaceIsNumeric c then ''(ObjectID = '' @ workspace c @ '')''
      else ''(Name = '' @ [CHR 0x22] @ workspace c @ [CHR 0x22] @ '')'')"

definition workspace_query_request :: "rally_client \<Rightarrow> request" where
  "workspace_query_request c =
     \<lparr>verb = ''GET'', url = ''/workspace'', params = [(''query'', workspaceQuery c)],
      body = JUndefined\<rparr>"

definition workspace_list_request :: request where
  "workspace_list_request = \<lparr>verb = ''GET'', url = ''/workspace'', params = [], body = JUndefined\<rparr>"

text \<open>The three requests of \<open>validateCredentials\<close>, each raced with its timer.\<close>

definition raceSubscription :: "'w backend \<Rightarrow> 'w env \<Rightarrow> (js_error + jsval response) \<times> 'w env" where
  "raceSubscription b e =
     await_raced (subscription b) subscription_request
       ''Subscription request timed out after 30 seconds'' e"

definition raceWorkspaceQuery ::
  "'w backend \<Rightarrow> rally_client \<Rightarrow> 'w env \<Rightarrow> (js_error + query_data option response) \<times> 'w env" where
  "raceWorkspaceQuery b c e =
     await_raced (workspaces b) (workspace_query_request c)
       ''Workspace request timed out after 30 seconds'' e"

definition raceWorkspaceList ::
  "'w backend \<Rightarrow> 'w env \<Rightarrow> (js_error + query_data option response) \<times> 'w env" where
  "raceWorkspaceList b e =
     await_raced (workspaces b) workspace_list_request
       ''Workspace listing timed out after 30 seconds'' e"

text \<open>
  \<open>d && d.QueryResult && d.QueryResult.Results\<close>, as a list: empty where a link of the chain
  is missing, so that the source's test \<open>... && Results.length > 0\<close> is \<open>results_of d \<noteq> []\<close>.
  \<open>errors_of\<close> does the same for \<open>Errors\<close>.
\<close>

definition results_of :: "query_data option \<Rightarrow> workspace_obj list" where
  "results_of d =
     (case d of None \<Rightarrow> []
      | Some q \<Rightarrow> (case QueryResult q of None \<Rightarrow> []
          | Some r \<Rightarrow> (case Results r of None \<Rightarrow> [] | Some ws \<Rightarrow> ws)))"

definition errors_of :: "query_data option \<Rightarrow> string list" where
  "errors_of d =
     (case d of None \<Rightarrow> []
      | Some q \<Rightarrow> (case QueryResult q of None \<Rightarrow> []
          | Some r \<Rightarrow> (case Errors r of None \<Rightarrow> [] | Some es \<Rightarrow> es)))"

text \<open>The value of the variable \<open>workspaceId\<close>, and how a template literal prints values.\<close>

datatype idval = IdNumber nat | IdText string | IdUndefined

fun id_truthy :: "idval \<Rightarrow> bool" where
  "id_truthy (IdNumber n) = (n \<noteq> 0)"
| "id_truthy (IdText s) = (s \<noteq> [])"
| "id_truthy IdUndefined = False"

fun show_id :: "idval \<Rightarrow> string" where
  "show_id (IdNumber n) = show_nat n"
| "show_id (IdText s) = s"
| "show_id IdUndefined = ''undefined''"

definition objectId :: "workspace_obj \<Rightarrow> idval" where
  "objectId w = (case ObjectID w of None \<Rightarrow> IdUndefined | Some n \<Rightarrow> IdNumber n)"

definition show_name :: "string option \<Rightarrow> string" where
  "show_name s = (case s of None \<Rightarrow> ''undefined'' | Some t \<Rightarrow> t)"

text \<open>
  \<open>r.match(/\/workspace\/(\d+)/)\<close>, first group: the digits after the leftmost
  \<open>/workspace/\<close> that a digit follows.
\<close>

fun ref_match :: "string \<Rightarrow> string option" where
  "ref_match [] = None"
| "ref_match (c # cs) =
     (if starts_with ''/workspace/'' (c # cs) \<and> takeWhile is_digit (drop 11 (c # cs)) \<noteq> []
      then Some (takeWhile is_digit (drop 11 (c # cs)))
      else ref_match cs)"

text \<open>
  \<open>w => w.Name && w.Name.toLowerCase().includes(this.workspace.toLowerCase())\<close>, and the
  workspace that \<open>Results.find(...)\<close> returns with it, \<open>None\<close> also where the search is
  skipped (a numeric or empty configured workspace).
\<close>

definition name_matches :: "'w backend \<Rightarrow> rally_client \<Rightarrow> workspace_obj \<Rightarrow> bool" where
  "name_matches b c w =
     (case Name w of None \<Rightarrow> False
      | Some nm \<Rightarrow> nm \<noteq> [] \<and> str_includes (toLowerCase b nm) (toLowerCase b (workspace c)))"

definition matchingWorkspace ::
  "'w backend \<Rightarrow> rally_client \<Rightarrow> workspace_obj list \<Rightarrow> workspace_obj option" where
  "matchingWorkspace b c ws =
     (if \<not> workspaceIsNumeric c \<and> workspace c \<noteq> [] then find (name_matches b c) ws else None)"

definition firstWorkspaceId :: "workspace_obj \<Rightarrow> idval" where
  "firstWorkspaceId firstWorkspace =
     (let workspaceId = objectId firstWorkspace
      in if \<not> id_truthy workspaceId \<and> str_truthy (ref firstWorkspace)
         then (case ref_match (case ref firstWorkspace of None \<Rightarrow> [] | Some r \<Rightarrow> r) of
                 Some digits \<Rightarrow> IdText digits
               | None \<Rightarrow> workspaceId)
         else workspaceId)"

definition not_found_advisory :: "rally_client \<Rightarrow> workspace_obj \<Rightarrow> string" where
  "not_found_advisory c firstWorkspace =
     ''Specified workspace '' @ [CHR 0x22] @ workspace c @ [CHR 0x22] @ '' not found, using ''
       @ [CHR 0x22] @ show_name (Name firstWorkspace) @ [CHR 0x22] @ '' (''
       @ show_id (firstWorkspaceId firstWorkspace) @ '') instead''"

text \<open>The branch taken when the listing holds at least one workspace.\<close>

fun useListedWorkspaces ::
  "'w backend \<Rightarrow> rally_client \<Rightarrow> workspace_obj \<Rightarrow> workspace_obj list \<Rightarrow> validation \<times> rally_client" where
  "useListedWorkspaces b c firstWorkspace rest =
     (case matchingWorkspace b c (firstWorkspace # rest) of
        Some m \<Rightarrow>
          (\<lparr>valid = True, error = None\<rparr>,
           c\<lparr>workspaceRef := Some (''/workspace/'' @ show_id (objectId m))\<rparr>)
      | None \<Rightarrow>
          (\<lparr>valid = True, error = Some (not_found_advisory c firstWorkspace)\<rparr>,
           c\<lparr>workspaceRef := Some (''/workspace/'' @ show_id (firstWorkspaceId firstWorkspace))\<rparr>))"

text \<open>The listing of all workspaces, tried when the query by name or ID found nothing.\<close>

definition listWorkspaces ::
  "'w backend \<Rightarrow> rally_client \<Rightarrow> 'w env \<Rightarrow> (js_error + validation) \<times> rally_client \<times> 'w env" where
  "listWorkspaces b c e =
     (case raceWorkspaceList b e of
        (Inl err, e') \<Rightarrow> (Inl err, c, e')
      | (Inr workspaceList, e') \<Rightarrow>
          (case results_of (data workspaceList) of
             firstWorkspace # rest \<Rightarrow>
               (case useListedWorkspaces b c firstWorkspace rest of (v, c') \<Rightarrow> (Inr v, c', e'))
           | [] \<Rightarrow>
               (if errors_of (data workspaceList) \<noteq> []
                then (Inr \<lparr>valid = False,
                           error = Some (''Workspace listing failed: ''
                                         @ join ''; '' (errors_of (data workspaceList)))\<rparr>, c, e')
                else (Inr \<lparr>valid = False,
                           error = Some ''No accessible workspaces found with this API key''\<rparr>, c, e'))))"

text \<open>The inner \<open>try\<close> block and its \<open>catch\<close>.\<close>

definition queryWorkspace ::
  "'w backend \<Rightarrow> rally_client \<Rightarrow> 'w env \<Rightarrow> (js_error + validation) \<times> rally_client \<times> 'w env" where
  "queryWorkspace b c e =
     (case raceWorkspaceQuery b c e of
        (Inl err, e') \<Rightarrow> (Inl err, c, e')
      | (Inr workspaceCheck, e') \<Rightarrow>
          (case results_of (data workspaceCheck) of
             w # rest \<Rightarrow>
               (Inr \<lparr>valid = True, error = None\<rparr>,
                c\<lparr>workspaceRef := Some (''/workspace/'' @ show_id (objectId w))\<rparr>, e')
           | [] \<Rightarrow> listWorkspaces b c e'))"

definition checkWorkspace ::
  "'w backend \<Rightarrow> rally_client \<Rightarrow> 'w env \<Rightarrow> (js_error + validation) \<times> rally_client \<times> 'w env" where
  "checkWorkspace b c e =
     (case queryWorkspace b c e of
        (Inl workspaceError, c', e') \<Rightarrow>
          (Inr \<lparr>valid = False,
                error = Some (''Error checking workspace: '' @ message workspaceError)\<rparr>, c', e')
      | (Inr v, c', e') \<Rightarrow> (Inr v, c', e'))"

text \<open>The outer \<open>catch\<close>.\<close>

fun credentialsFailure :: "js_error \<Rightarrow> validation" where
  "credentialsFailure (AxiosError (Some st) rq m) =
     (if st = 401 then \<lparr>valid = False, error = Some ''Authentication failed - invalid API key''\<rparr>
      else \<lparr>valid = False,
            error = Some (''Request failed with status '' @ show_nat st @ '': '' @ m)\<rparr>)"
| "credentialsFailure (AxiosError None True m) =
     \<lparr>valid = False,
      error = Some ''No response from Rally API server - network issue or service unavailable''\<rparr>"
| "credentialsFailure err =
     \<lparr>valid = False, error = Some (''Failed to validate credentials: '' @ message err)\<rparr>"

definition pingSubscription ::
  "'w backend \<Rightarrow> rally_client \<Rightarrow> 'w env \<Rightarrow> (js_error + validation) \<times> rally_client \<times> 'w env" where
  "pingSubscription b c e =
     (case raceSubscription b e of
        (Inl err, e') \<Rightarrow> (Inl err, c, e')
      | (Inr rsp, e') \<Rightarrow>
          (if status rsp = 200 \<and> truthy (data rsp) then checkWorkspace b c e'
           else (Inr \<lparr>valid = False,
                      error = Some (''Unexpected response from Rally API: '' @ show_nat (status rsp))\<rparr>,
                 c, e')))"

definition validateCredentials ::
  "'w backend \<Rightarrow> rally_client \<Rightarrow> 'w env \<Rightarrow> (js_error + validation) \<times> rally_client \<times> 'w env" where
  "validateCredentials b c e =
     (case pingSubscription b c e of
        (Inl err, c', e') \<Rightarrow> (Inr (credentialsFailure err), c', e')
      | (Inr v, c', e') \<Rightarrow> (Inr v, c', e'))"

subsection \<open>The frame of every client method\<close>

text \<open>
  Each method of the client has the same frame:
  \<^verbatim>\<open>try { if (!this.workspaceRef) { await this.validateCredentials(); }
        <build the request>  response = await this.client.<verb>(...);  return <part of response.data>
  } catch (error) { if (axios.isAxiosError(error)) { throw new Error(<failure> + error.message); }
                    throw error; }\<close>
  \<open>client_method\<close> is that frame; a method gives its failure text, how it builds its request
  from the client (which may throw) and what it returns of the response's data.
\<close>

definition checkInitialize ::
  "'w backend \<Rightarrow> rally_client \<Rightarrow> 'w env \<Rightarrow> (js_error + unit) \<times> rally_client \<times> 'w env" where
  "checkInitialize b c e =
     (if \<not> str_truthy (workspaceRef c)
      then (case validateCredentials b c e of
              (Inl err, c', e') \<Rightarrow> (Inl err, c', e')
            | (Inr v, c', e') \<Rightarrow> (Inr (), c', e'))
      else (Inr (), c, e))"

definition rethrow :: "string \<Rightarrow> js_error \<Rightarrow> js_error" where
  "rethrow failure err = (if isAxiosError err then Error (failure @ message err) else err)"

definition client_method ::
  "'w backend \<Rightarrow> string \<Rightarrow> (rally_client \<Rightarrow> js_error + request) \<Rightarrow> (jsval \<Rightarrow> js_error + jsval)
     \<Rightarrow> rally_client \<Rightarrow> 'w env \<Rightarrow> (js_error + jsval) \<times> rally_client \<times> 'w env" where
  "client_method b failure build extract c e =
     (case checkInitialize b c e of
        (Inl err, c1, e1) \<Rightarrow> (Inl (rethrow failure err), c1, e1)
      | (Inr u, c1, e1) \<Rightarrow>
          (case build c1 of
             Inl err \<Rightarrow> (Inl (rethrow failure err), c1, e1)
           | Inr rq \<Rightarrow>
               (case await_request (artifacts b) rq e1 of
                  (Inl err, e2) \<Rightarrow> (Inl (rethrow failure err), c1, e2)
                | (Inr rsp, e2) \<Rightarrow>
                    (case extract (data rsp) of
                       Inl err \<Rightarrow> (Inl (rethrow failure err), c1, e2)
                     | Inr v \<Rightarrow> (Inr v, c1, e2)))))"

text \<open>Reading \<open>v.k\<close> where \<open>v\<close> may be \<open>undefined\<close> or \<open>null\<close>: a TypeError then.\<close>

definition read_member :: "jsval \<Rightarrow> string \<Rightarrow> js_error + jsval" where
  "read_member v k =
     (if nullish v
      then Inl (TypeError (''Cannot read properties of ''
                  @ (if v = JNull then ''null'' else ''undefined'')
                  @ '' (reading '' @ [CHR 0x27] @ k @ [CHR 0x27] @ '')''))
      else Inr (get_prop v k))"

text \<open>The query parameters that axios sends: those that are not \<open>undefined\<close>.\<close>

fun defined_params :: "(string \<times> string option) list \<Rightarrow> (string \<times> string) list" where
  "defined_params [] = []"
| "defined_params ((k, None) # ps) = defined_params ps"
| "defined_params ((k, Some v) # ps) = (k, v) # defined_params ps"

definition projectRef :: "rally_client \<Rightarrow> string option" where
  "projectRef c =
     (case project c of None \<Rightarrow> None
      | Some p \<Rightarrow> if p \<noteq> [] then Some (''/project/'' @ p) else None)"

subsection \<open>Stories\<close>

text \<open>\<open>params: {workspace: this.workspaceRef, project: ..., ...queryParams}\<close>\<close>

definition getStories_request :: "(string \<times> string) list \<Rightarrow> rally_client \<Rightarrow> request" where
  "getStories_request queryParams c =
     \<lparr>verb = ''GET'', url = ''/HierarchicalRequirement'',
      params = defined_params
        (own_property_order
           (fold (\<lambda>(k, v) ps. set_prop ps k (Some v)) queryParams
              [(''workspace'', workspaceRef c), (''project'', projectRef c)])),
      body = JUndefined\<rparr>"

definition getStories ::
  "'w backend \<Rightarrow> (string \<times> string) list \<Rightarrow> rally_client \<Rightarrow> 'w env
     \<Rightarrow> (js_error + jsval) \<times> rally_client \<times> 'w env" where
  "getStories b queryParams =
     client_method b ''Failed to fetch stories: '' (\<lambda>c. Inr (getStories_request queryParams c)) Inr"

definition getStory_request :: "string \<Rightarrow> rally_client \<Rightarrow> request" where
  "getStory_request ident c =
     \<lparr>verb = ''GET'', url = ''/HierarchicalRequirement/'' @ ident,
      params = defined_params [(''workspace'', workspaceRef c), (''project'', projectRef c)],
      body = JUndefined\<rparr>"

definition getStory ::
  "'w backend \<Rightarrow> string \<Rightarrow> rally_client \<Rightarrow> 'w env \<Rightarrow> (js_error + jsval) \<times> rally_client \<times> 'w env" where
  "getStory b ident =
     client_method b (''Failed to fetch story '' @ ident @ '': '')
       (\<lambda>c. Inr (getStory_request ident c)) Inr"

text \<open>
  \<open>{...data, Workspace: {_ref: this.workspaceRef},
     Project: data.Project || (this.project ? {_ref: `/project/${this.project}`} : undefined)}\<close>
\<close>

definition createStory_payload :: "(string \<times> jsval) list \<Rightarrow> rally_client \<Rightarrow> jsval" where
  "createStory_payload storyData c =
     JObj (set_prop
             (set_prop storyData ''Workspace'' (JObj [(''_ref'', opt_str (workspaceRef c))]))
             ''Project''
             (js_or (get_prop (JObj storyData) ''Project'')
                    (case projectRef c of None \<Rightarrow> JUndefined | Some r \<Rightarrow> JObj [(''_ref'', JStr r)])))"

definition createStory_request :: "(string \<times> jsval) list \<Rightarrow> rally_client \<Rightarrow> request" where
  "createStory_request storyData c =
     \<lparr>verb = ''POST'', url = ''/HierarchicalRequirement/create'', params = [],
      body = to_json (JObj [(''HierarchicalRequirement'', createStory_payload storyData c)])\<rparr>"

definition createStory ::
  "'w backend \<Rightarrow> (string \<times> jsval) list \<Rightarrow> rally_client \<Rightarrow> 'w env
     \<Rightarrow> (js_error + jsval) \<times> rally_client \<times> 'w env" where
  "createStory b storyData =
     client_method b ''Failed to create story: '' (\<lambda>c. Inr (createStory_request storyData c))
       (\<lambda>d. case read_member d ''CreateResult'' of
               Inl err \<Rightarrow> Inl err
             | Inr r \<Rightarrow> read_member r ''Object'')"

definition updateStory_request :: "string \<Rightarrow> (string \<times> jsval) list \<Rightarrow> request" where
  "updateStory_request ident updateData =
     \<lparr>verb = ''POST'', url = ''/HierarchicalRequirement/'' @ ident, params = [],
      body = to_json (JObj [(''HierarchicalRequirement'', JObj updateData)])\<rparr>"

definition updateStory ::
  "'w backend \<Rightarrow> string \<Rightarrow> (string \<times> jsval) list \<Rightarrow> rally_client \<Rightarrow> 'w env
     \<Rightarrow> (js_error + jsval) \<times> rally_client \<times> 'w env" where
  "updateStory b ident updateData =
     client_method b (''Failed to update story '' @ ident @ '': '')
       (\<lambda>c. Inr (updateStory_request ident updateData)) Inr"

definition deleteStory_request :: "string \<Rightarrow> request" where
  "deleteStory_request ident =
     \<lparr>verb = ''DELETE'', url = ''/HierarchicalRequirement/'' @ ident, params = [],
      body = JUndefined\<rparr>"

definition deleteStory ::
  "'w backend \<Rightarrow> string \<Rightarrow> rally_client \<Rightarrow> 'w env \<Rightarrow> (js_error + jsval) \<times> rally_client \<times> 'w env" where
  "deleteStory b ident =
     client_method b (''Failed to delete story '' @ ident @ '': '')
       (\<lambda>c. Inr (deleteStory_request ident)) Inr"

subsection \<open>Relationships\<close>

definition getRelationships_request :: "string \<Rightarrow> rally_client \<Rightarrow> request" where
  "getRelationships_request artifactId c =
     \<lparr>verb = ''GET'', url = ''/HierarchicalRequirement/'' @ artifactId,
      params = defined_params
        [(''fetch'', Some ''Predecessors,Successors,Children,Parent,Blocked,Blocker,Duplicates''),
         (''workspace'', workspaceRef c)],
      body = JUndefined\<rparr>"

definition getRelationships ::
  "'w backend \<Rightarrow> string \<Rightarrow> rally_client \<Rightarrow> 'w env \<Rightarrow> (js_error + jsval) \<times> rally_client \<times> 'w env" where
  "getRelationships b artifactId =
     client_method b (''Failed to get relationships for '' @ artifactId @ '': '')
       (\<lambda>c. Inr (getRelationships_request artifactId c)) Inr"

text \<open>
  The \<open>switch\<close> on the relationship type, which at run time is any string; \<open>None\<close> is the
  \<open>default\<close> branch, which throws.
\<close>

definition collectionName :: "string \<Rightarrow> string option" where
  "collectionName relationshipType =
     (if relationshipType = ''Predecessor'' then Some ''Predecessors''
      else if relationshipType = ''Successor'' then Some ''Successors''
      else if relationshipType = ''Parent'' then Some ''Parent''
      else if relationshipType = ''Child'' then Some ''Children''
      else if relationshipType = ''Blocker'' then Some ''Blockers''
      else if relationshipType = ''Blocked'' then Some ''Blocked''
      else if relationshipType = ''Duplicate'' then Some ''Duplicates''
      else if relationshipType = ''Duplicated'' then Some ''Duplicated''
      else None)"

definition isSingleReference :: "string \<Rightarrow> bool" where
  "isSingleReference name = (name \<in> set [''Parent''])"

definition artifactType :: string where
  "artifactType = ''HierarchicalRequirement''"

definition createRelationship_updateData :: "string \<Rightarrow> string \<Rightarrow> jsval" where
  "createRelationship_updateData name targetId =
     (if isSingleReference name
      then JObj [(artifactType,
                  JObj [(name, JObj [(''_ref'', JStr (''/'' @ artifactType @ ''/'' @ targetId))])])]
      else JObj [(artifactType,
                  JObj [(name, JObj [(''_type'', JStr ''add''),
                                     (''_ref'', JStr (''/'' @ artifactType @ ''/'' @ targetId))])])])"

definition removeRelationship_updateData :: "string \<Rightarrow> string \<Rightarrow> jsval" where
  "removeRelationship_updateData name targetId =
     (if isSingleReference name
      then JObj [(artifactType, JObj [(name, JNull)])]
      else JObj [(artifactType,
                  JObj [(name, JObj [(''_type'', JStr ''remove''),
                                     (''_ref'', JStr (''/'' @ artifactType @ ''/'' @ targetId))])])])"

definition relationship_request ::
  "(string \<Rightarrow> string \<Rightarrow> jsval) \<Rightarrow> string \<Rightarrow> string \<Rightarrow> string \<Rightarrow> js_error + request" where
  "relationship_request updateData sourceId targetId relationshipType =
     (case collectionName relationshipType of
        None \<Rightarrow> Inl (Error (''Unsupported relationship type: '' @ relationshipType))
      | Some name \<Rightarrow>
          Inr \<lparr>verb = ''POST'', url = ''/'' @ artifactType @ ''/'' @ sourceId, params = [],
               body = to_json (updateData name targetId)\<rparr>)"

definition createRelationship ::
  "'w backend \<Rightarrow> string \<Rightarrow> string \<Rightarrow> string \<Rightarrow> rally_client \<Rightarrow> 'w env
     \<Rightarrow> (js_error + jsval) \<times> rally_client \<times> 'w env" where
  "createRelationship b sourceId targetId relationshipType =
     client_method b ''Failed to create relationship: ''
       (\<lambda>c. relationship_request createRelationship_updateData sourceId targetId relationshipType)
       Inr"

definition removeRelationship ::
  "'w backend \<Rightarrow> string \<Rightarrow> string \<Rightarrow> string \<Rightarrow> rally_client \<Rightarrow> 'w env
     \<Rightarrow> (js_error + jsval) \<times> rally_client \<times> 'w env" where
  "removeRelationship b sourceId targetId relationshipType =
     client_method b ''Failed to remove relationship: ''
       (\<lambda>c. relationship_request removeRelationship_updateData sourceId targetId relationshipType)
       Inr"

section \<open>The tool handlers\<close>

text \<open>
  The text of a tool's answer is a template literal; it is kept as its pieces, an
  interpolated value or a \<open>JSON.stringify\<close> of one left as the value. \<open>isError\<close> is
  \<open>False\<close> where the source leaves it out.
\<close>

datatype piece = Lit string | Interp jsval | Stringify jsval

record tool_result =
  content :: "piece list"
  isError :: bool

definition failed :: "string \<Rightarrow> tool_result" where
  "failed text = \<lparr>content = [Lit text], isError = True\<rparr>"

definition succeeded :: "piece list \<Rightarrow> tool_result" where
  "succeeded text = \<lparr>content = text, isError = False\<rparr>"

text \<open>
  \<open>if (sendProgressUpdate) { sendProgressUpdate(operation, percent, text); }\<close>, where the
  first argument of a handler says whether the server has the function.
\<close>

definition sendProgressUpdate :: "bool \<Rightarrow> string \<Rightarrow> nat \<Rightarrow> string \<Rightarrow> 'w env \<Rightarrow> 'w env" where
  "sendProgressUpdate has operation percent text e =
     (if has then e\<lparr>progress := progress e @ [(operation, percent, text)]\<rparr> else e)"

subsection \<open>createStory\<close>

definition createStory_storyData ::
  "string \<Rightarrow> string option \<Rightarrow> string option \<Rightarrow> string option \<Rightarrow> real option \<Rightarrow> string option
     \<Rightarrow> (string \<times> jsval) list" where
  "createStory_storyData name description projectId state estimate priority =
     (let d0 = [(''Name'', JStr name), (''Description'', opt_str description)];
          d1 = (case projectId of
                  Some p \<Rightarrow> if p \<noteq> []
                    then set_prop d0 ''Project'' (JObj [(''_ref'', JStr (''/project/'' @ p))]) else d0
                | None \<Rightarrow> d0);
          d2 = (case state of
                  Some s \<Rightarrow> if s \<noteq> [] then set_prop d1 ''ScheduleState'' (JStr s) else d1
                | None \<Rightarrow> d1);
          d3 = (case estimate of
                  Some x \<Rightarrow> if x \<noteq> 0 then set_prop d2 ''PlanEstimate'' (JNum x) else d2
                | None \<Rightarrow> d2)
      in (case priority of
            Some p \<Rightarrow> if p \<noteq> [] then set_prop d3 ''Priority'' (JStr p) else d3
          | None \<Rightarrow> d3))"

definition createStory_tool ::
  "'w backend \<Rightarrow> bool \<Rightarrow> string \<Rightarrow> string option \<Rightarrow> string option \<Rightarrow> string option \<Rightarrow> real option
     \<Rightarrow> string option \<Rightarrow> rally_client \<Rightarrow> 'w env \<Rightarrow> tool_result \<times> rally_client \<times> 'w env" where
  "createStory_tool b has name description projectId state estimate priority c e =
     (let e0 = sendProgressUpdate has ''createStory'' 10 ''Preparing story data'' e;
          storyData = createStory_storyData name description projectId state estimate priority;
          e1 = sendProgressUpdate has ''createStory'' 50 ''Sending request to Rally API'' e0
      in (case createStory b storyData c e1 of
            (Inl err, c', e2) \<Rightarrow> (failed (''Error creating story: '' @ message err), c', e2)
          | (Inr result, c', e2) \<Rightarrow>
              (let e3 = sendProgressUpdate has ''createStory'' 100 ''Story created successfully'' e2
               in (case read_member result ''FormattedID'' of
                     Inl err \<Rightarrow> (failed (''Error creating story: '' @ message err), c', e3)
                   | Inr formattedId \<Rightarrow>
                       (succeeded [Lit (''Successfully created story '' @ [CHR 0x22] @ name
                                        @ [CHR 0x22] @ '' with ID ''), Interp formattedId],
                        c', e3)))))"

subsection \<open>updateStory\<close>

definition updateStory_updateData ::
  "string option \<Rightarrow> string option \<Rightarrow> string option \<Rightarrow> real option \<Rightarrow> string option
     \<Rightarrow> (string \<times> jsval) list" where
  "updateStory_updateData name description state estimate priority =
     (let d0 = [];
          d1 = (case name of Some v \<Rightarrow> set_prop d0 ''Name'' (JStr v) | None \<Rightarrow> d0);
          d2 = (case description of Some v \<Rightarrow> set_prop d1 ''Description'' (JStr v) | None \<Rightarrow> d1);
          d3 = (case state of Some v \<Rightarrow> set_prop d2 ''ScheduleState'' (JStr v) | None \<Rightarrow> d2);
          d4 = (case estimate of Some x \<Rightarrow> set_prop d3 ''PlanEstimate'' (JNum x) | None \<Rightarrow> d3)
      in (case priority of Some v \<Rightarrow> set_prop d4 ''Priority'' (JStr v) | None \<Rightarrow> d4))"

text \<open>
  The handler races the client's call with a 30 second timer; \<open>timer_first\<close> says that the
  timer settles first. The client's call runs in either case.
\<close>

definition updateStory_tool ::
  "'w backend \<Rightarrow> bool \<Rightarrow> bool \<Rightarrow> string \<Rightarrow> string option \<Rightarrow> string option \<Rightarrow> string option
     \<Rightarrow> real option \<Rightarrow> string option \<Rightarrow> rally_client \<Rightarrow> 'w env
     \<Rightarrow> tool_result \<times> rally_client \<times> 'w env" where
  "updateStory_tool b has timer_first ident name description state estimate priority c e =
     (let e0 = sendProgressUpdate has ''updateStory'' 10 ''Preparing story update data'' e;
          updateData = updateStory_updateData name description state estimate priority
      in if length updateData = 0
         then (failed ''No fields provided for update. Story was not modified.'', c, e0)
         else
           (let e1 = sendProgressUpdate has ''updateStory'' 50
                       ''Sending update request to Rally API'' e0
            in (case updateStory b ident updateData c e1 of
                  (r, c', e2) \<Rightarrow>
                    (if timer_first
                     then (failed (''Error updating story: ''
                                   @ ''Story update timed out after 30 seconds''), c', e2)
                     else (case r of
                             Inl err \<Rightarrow> (failed (''Error updating story: '' @ message err), c', e2)
                           | Inr result \<Rightarrow>
                               (succeeded [Lit (''Successfully updated story '' @ ident)], c',
                                sendProgressUpdate has ''updateStory'' 100
                                  ''Story updated successfully'' e2))))))"

subsection \<open>deleteStory\<close>

definition deleteStory_tool ::
  "'w backend \<Rightarrow> string \<Rightarrow> rally_client \<Rightarrow> 'w env \<Rightarrow> tool_result \<times> rally_client \<times> 'w env" where
  "deleteStory_tool b ident c e =
     (case deleteStory b ident c e of
        (Inl err, c', e') \<Rightarrow> (failed (''Error deleting story: '' @ message err), c', e')
      | (Inr result, c', e') \<Rightarrow> (succeeded [Lit (''Successfully deleted story '' @ ident)], c', e'))"

subsection \<open>createRelationship, removeRelationship\<close>

text \<open>
  The values that the schema of both tools admits as \<open>relationshipType\<close>. The two
  definitions after it are the handler functions registered with the tools, which the
  server calls once the arguments have passed the schema; the calls through the schema
  follow.
\<close>

definition relationshipTypes :: "string list" where
  "relationshipTypes =
     [''Predecessor'', ''Successor'', ''Parent'', ''Child'', ''Blocker'', ''Blocked'',
      ''Duplicate'', ''Duplicated'']"

definition createRelationship_tool ::
  "'w backend \<Rightarrow> string \<Rightarrow> string \<Rightarrow> string \<Rightarrow> rally_client \<Rightarrow> 'w env
     \<Rightarrow> tool_result \<times> rally_client \<times> 'w env" where
  "createRelationship_tool b sourceId targetId relationshipType c e =
     (if sourceId = targetId
      then (failed ''Source and target cannot be the same artifact.'', c, e)
      else (case createRelationship b sourceId targetId relationshipType c e of
              (Inl err, c', e') \<Rightarrow> (failed (''Error creating relationship: '' @ message err), c', e')
            | (Inr result, c', e') \<Rightarrow>
                (succeeded [Lit (''Successfully created '' @ relationshipType
                                 @ '' relationship from '' @ sourceId @ '' to '' @ targetId)],
                 c', e')))"

definition removeRelationship_tool ::
  "'w backend \<Rightarrow> string \<Rightarrow> string \<Rightarrow> string \<Rightarrow> rally_client \<Rightarrow> 'w env
     \<Rightarrow> tool_result \<times> rally_client \<times> 'w env" where
  "removeRelationship_tool b sourceId targetId relationshipType c e =
     (case removeRelationship b sourceId targetId relationshipType c e of
        (Inl err, c', e') \<Rightarrow> (failed (''Error removing relationship: '' @ message err), c', e')
      | (Inr result, c', e') \<Rightarrow>
          (succeeded [Lit (''Successfully removed '' @ relationshipType
                           @ '' relationship from '' @ sourceId @ '' to '' @ targetId)],
           c', e'))"

subsection \<open>getRelationships\<close>

text \<open>
  \<open>if (artifact.F) { relationships.F = artifact.F._tagsNameArray || []; }\<close> for a
  collection, \<open>if (artifact.Parent) { relationships.Parent = artifact.Parent._refObjectName; }\<close>
  for the parent, in the order of the source.
\<close>

definition read_collection :: "jsval \<Rightarrow> string \<Rightarrow> (string \<times> jsval) list \<Rightarrow> (string \<times> jsval) list" where
  "read_collection artifact field relationships =
     (if truthy (get_prop artifact field)
      then set_prop relationships field
             (js_or (get_prop (get_prop artifact field) ''_tagsNameArray'') (JArr []))
      else relationships)"

definition read_parent :: "jsval \<Rightarrow> (string \<times> jsval) list \<Rightarrow> (string \<times> jsval) list" where
  "read_parent artifact relationships =
     (if truthy (get_prop artifact ''Parent'')
      then set_prop relationships ''Parent'' (get_prop (get_prop artifact ''Parent'') ''_refObjectName'')
      else relationships)"

definition relationships_of :: "jsval \<Rightarrow> (string \<times> jsval) list" where
  "relationships_of artifact =
     read_collection artifact ''Duplicates''
       (read_collection artifact ''Blocker''
         (read_collection artifact ''Blocked''
           (read_parent artifact
             (read_collection artifact ''Children''
               (read_collection artifact ''Successors''
                 (read_collection artifact ''Predecessors'' []))))))"

definition getRelationships_tool ::
  "'w backend \<Rightarrow> string \<Rightarrow> rally_client \<Rightarrow> 'w env \<Rightarrow> tool_result \<times> rally_client \<times> 'w env" where
  "getRelationships_tool b artifactId c e =
     (case getRelationships b artifactId c e of
        (Inl err, c', e') \<Rightarrow> (failed (''Error getting relationships: '' @ message err), c', e')
      | (Inr result, c', e') \<Rightarrow>
          (case read_member result ''HierarchicalRequirement'' of
             Inl err \<Rightarrow> (failed (''Error getting relationships: '' @ message err), c', e')
           | Inr hr \<Rightarrow>
               (succeeded [Lit (''Relationships for '' @ artifactId @ '':'' @ [CHR 0x0A]),
                           Stringify (JObj (relationships_of (js_or hr (JObj []))))],
                c', e')))"

subsection \<open>A call of a relationship tool\<close>

text \<open>
  Both tools are registered with the schema
  \<^verbatim>\<open>{ sourceId: z.string().min(1, "Source ID is required"),
    targetId: z.string().min(1, "Target ID is required"),
    relationshipType: z.enum([<the eight>], { errorMap: () => ({ message: "Relationship type must be one of: ..." }) }) }\<close>.
  The server checks the arguments of a call against the schema of the tool and runs the
  handler only if they pass; otherwise the call is answered with an invalid-arguments
  error made of the messages of the schema, and the handler does not run.
  \<open>schema_issues\<close> are the messages for three strings as arguments, in the order of the
  schema's keys.
\<close>

definition relationshipType_message :: string where
  "relationshipType_message =
     ''Relationship type must be one of: Predecessor, Successor, Parent, Child, Blocker, Blocked, Duplicate, Duplicated''"

definition schema_issues :: "string \<Rightarrow> string \<Rightarrow> string \<Rightarrow> string list" where
  "schema_issues sourceId targetId relationshipType =
     (if length sourceId < 1 then [''Source ID is required''] else [])
     @ (if length targetId < 1 then [''Target ID is required''] else [])
     @ (if relationshipType \<in> set relationshipTypes then [] else [relationshipType_message])"

datatype call_result = InvalidArguments "string list" | Answer tool_result

definition call_tool ::
  "string list \<Rightarrow> (rally_client \<Rightarrow> 'w env \<Rightarrow> tool_result \<times> rally_client \<times> 'w env)
     \<Rightarrow> rally_client \<Rightarrow> 'w env \<Rightarrow> call_result \<times> rally_client \<times> 'w env" where
  "call_tool issues handler c e =
     (if issues = [] then (case handler c e of (r, c', e') \<Rightarrow> (Answer r, c', e'))
      else (InvalidArguments issues, c, e))"

definition call_createRelationship ::
  "'w backend \<Rightarrow> string \<Rightarrow> string \<Rightarrow> string \<Rightarrow> rally_client \<Rightarrow> 'w env
     \<Rightarrow> call_result \<times> rally_client \<times> 'w env" where
  "call_createRelationship b sourceId targetId relationshipType =
     call_tool (schema_issues sourceId targetId relationshipType)
       (createRelationship_tool b sourceId targetId relationshipType)"

definition call_removeRelationship ::
  "'w backend \<Rightarrow> string \<Rightarrow> string \<Rightarrow> string \<Rightarrow> rally_client \<Rightarrow> 'w env
     \<Rightarrow> call_result \<times> rally_client \<times> 'w env" where
  "call_removeRelationship b sourceId targetId relationshipType =
     call_tool (schema_issues sourceId targetId relationshipType)
       (removeRelationship_tool b sourceId targetId relationshipType)"

section \<open>Sequences of operations, and inputs for the examples\<close>

text \<open>The eight operations of the client, to speak of what an instance does over time.\<close>

datatype operation =
    GetStories "(string \<times> string) list"
  | GetStory string
  | CreateStory "(string \<times> jsval) list"
  | UpdateStory string "(string \<times> jsval) list"
  | DeleteStory string
  | GetRelationships string
  | CreateRelationship string string string
  | RemoveRelationship string string string

fun run_operation ::
  "'w backend \<Rightarrow> operation \<Rightarrow> rally_client \<Rightarrow> 'w env \<Rightarrow> (js_error + jsval) \<times> rally_client \<times> 'w env" where
  "run_operation b (GetStories q) c e = getStories b q c e"
| "run_operation b (GetStory i) c e = getStory b i c e"
| "run_operation b (CreateStory d) c e = createStory b d c e"
| "run_operation b (UpdateStory i d) c e = updateStory b i d c e"
| "run_operation b (DeleteStory i) c e = deleteStory b i c e"
| "run_operation b (GetRelationships i) c e = getRelationships b i c e"
| "run_operation b (CreateRelationship s t k) c e = createRelationship b s t k c e"
| "run_operation b (RemoveRelationship s t k) c e = removeRelationship b s t k c e"

fun run_operations ::
  "'w backend \<Rightarrow> operation list \<Rightarrow> rally_client \<Rightarrow> 'w env \<Rightarrow> rally_client \<times> 'w env" where
  "run_operations b [] c e = (c, e)"
| "run_operations b (x # xs) c e =
     (case run_operation b x c e of (r, c', e') \<Rightarrow> run_operations b xs c' e')"

text \<open>The request that an operation builds, if its relationship type is a known one.\<close>

fun operation_request :: "operation \<Rightarrow> rally_client \<Rightarrow> js_error + request" where
  "operation_request (GetStories q) c = Inr (getStories_request q c)"
| "operation_request (GetStory i) c = Inr (getStory_request i c)"
| "operation_request (CreateStory d) c = Inr (createStory_request d c)"
| "operation_request (UpdateStory i d) c = Inr (updateStory_request i d)"
| "operation_request (DeleteStory i) c = Inr (deleteStory_request i)"
| "operation_request (GetRelationships i) c = Inr (getRelationships_request i c)"
| "operation_request (CreateRelationship s t k) c =
     relationship_request createRelationship_updateData s t k"
| "operation_request (RemoveRelationship s t k) c =
     relationship_request removeRelationship_updateData s t k"

definition resolution_requests :: "rally_client \<Rightarrow> request set" where
  "resolution_requests c =
     {subscription_request, workspace_query_request c, workspace_list_request}"

text \<open>The table of section 4.2 of the specification: kind, collection, cardinality.\<close>

datatype cardinality = Single | Multi

definition mapping_table :: "(string \<times> string \<times> cardinality) list" where
  "mapping_table =
     [(''Predecessor'', ''Predecessors'', Multi),
      (''Successor'', ''Successors'', Multi),
      (''Parent'', ''Parent'', Single),
      (''Child'', ''Children'', Multi),
      (''Blocker'', ''Blockers'', Multi),
      (''Blocked'', ''Blocked'', Multi),
      (''Duplicate'', ''Duplicates'', Multi),
      (''Duplicated'', ''Duplicated'', Multi)]"

text \<open>
  What \<open>toLowerCase\<close> does to a string of ASCII characters: the letters \<open>A\<close> to \<open>Z\<close>
  become \<open>a\<close> to \<open>z\<close>. The strings of the examples are such strings.
\<close>

definition to_lower_char :: "char \<Rightarrow> char" where
  "to_lower_char c =
     (case map_of (zip ''ABCDEFGHIJKLMNOPQRSTUVWXYZ'' ''abcdefghijklmnopqrstuvwxyz'') c of
        None \<Rightarrow> c
      | Some l \<Rightarrow> l)"

definition ascii_toLowerCase :: "string \<Rightarrow> string" where
  "ascii_toLowerCase s = map to_lower_char s"

text \<open>A backend without state that gives one fixed answer per kind of request.\<close>

definition stub_backend ::
  "jsval reply \<Rightarrow> query_data option reply \<Rightarrow> query_data option reply \<Rightarrow> jsval reply \<Rightarrow> unit backend" where
  "stub_backend ping byQuery listing artifact =
     \<lparr>subscription = (\<lambda>rq w. (ping, w)),
      workspaces = (\<lambda>rq w. (if params rq = [] then listing else byQuery, w)),
      artifacts = (\<lambda>rq w. (artifact, w)),
      toLowerCase = ascii_toLowerCase\<rparr>"

definition ok :: "'d \<Rightarrow> 'd reply" where
  "ok d = \<lparr>late = False, settled = Resolved \<lparr>status = 200, data = d\<rparr>\<rparr>"


definition listed :: "workspace_obj list \<Rightarrow> query_data option" where
  "listed ws = Some \<lparr>QueryResult = Some \<lparr>Results = Some ws, Errors = Some []\<rparr>\<rparr>"

definition fresh_env :: "unit env" where
  "fresh_env = \<lparr>world = (), calls = [], progress = []\<rparr>"

definition client_for :: "string \<Rightarrow> string option \<Rightarrow> rally_client" where
  "client_for token proj =
     RallyClient \<lparr>rallyApiKey = ''key'', rallyWorkspace = token, rallyProject = proj\<rparr>"

text \<open>The collection fields that the \<open>getRelationships\<close> tool reads, and an artifact for the examples.\<close>

definition collection_fields :: "string list" where
  "collection_fields =
     [''Predecessors'', ''Successors'', ''Children'', ''Blocked'', ''Blocker'', ''Duplicates'']"

definition example_artifact :: jsval where
  "example_artifact =
     JObj [(''Predecessors'', JObj [(''Count'', JNum 1), (''_tagsNameArray'', JArr [JStr ''US7''])]),
           (''Children'', JObj [(''Count'', JNum 0)]),
           (''Parent'', JObj [(''_refObjectName'', JStr ''Epic 1'')]),
           (''Duplicated'', JObj [(''_tagsNameArray'', JArr [JStr ''US9''])])]"

text \<open>The story object of a request's body.\<close>

definition sent_story :: "request \<Rightarrow> jsval" where
  "sent_story rq = get_prop (body rq) ''HierarchicalRequirement''"

text \<open>A backend that knows the workspace 42, "Team A", and answers every story request.\<close>

definition team_a :: workspace_obj where
  "team_a = \<lparr>Name = Some ''Team A'', ObjectID = Some 42, ref = Some ''/workspace/42''\<rparr>"

definition team_backend :: "unit backend" where
  "team_backend =
     stub_backend (ok (JObj [])) (ok (listed [team_a])) (ok (listed [team_a])) (ok (JObj []))"

text \<open>Listings of workspaces for the examples, and a backend whose query by name or ID finds nothing.\<close>

definition alpha_beta :: "workspace_obj list" where
  "alpha_beta =
     [\<lparr>Name = Some ''Alpha'', ObjectID = None, ref = Some ''/workspace/alpha''\<rparr>,
      \<lparr>Name = Some ''Beta'', ObjectID = Some 2, ref = Some ''/workspace/2''\<rparr>]"

definition listing_backend :: "workspace_obj list \<Rightarrow> unit backend" where
  "listing_backend ws = stub_backend (ok (JObj [])) (ok (listed [])) (ok (listed ws)) (ok (JObj []))"

definition alpha_team :: workspace_obj where
  "alpha_team = \<lparr>Name = Some ''Alpha Team'', ObjectID = Some 7, ref = Some ''/workspace/7''\<rparr>"

text \<open>A backend that answers every request for an artifact with the example artifact.\<close>

definition artifact_backend :: "unit backend" where
  "artifact_backend =
     stub_backend (ok (JObj [])) (ok (listed [team_a])) (ok (listed [team_a]))
       (ok (JObj [(''HierarchicalRequirement'', example_artifact)]))"

text \<open>The requests that an operation issues for itself: one, or none if it throws first.\<close>

definition issued :: "operation \<Rightarrow> rally_client \<Rightarrow> request list" where
  "issued x c = (case operation_request x c of Inl err \<Rightarrow> [] | Inr rq \<Rightarrow> [rq])"

section \<open>Properties\<close>

subsection \<open>The frame\<close>

lemma validateCredentials_returns:
  "\<exists>v c' e'. validateCredentials b c e = (Inr v, c', e')"
  by (simp add: validateCredentials_def split: prod.splits sum.splits)

lemma checkInitialize_returns:
  "\<exists>c' e'. checkInitialize b c e = (Inr (), c', e')"
  using validateCredentials_returns [of b c e]
  by (auto simp add: checkInitialize_def)

lemma client_method_request:
  assumes "checkInitialize b c e = (u, c1, e1)" and "build c1 = Inr rq"
  shows "fst (snd (client_method b f build ex c e)) = c1
    \<and> calls (snd (snd (client_method b f build ex c e))) = calls e1 @ [rq]
    \<and> world (snd (snd (client_method b f build ex c e))) = snd (artifacts b rq (world e1))
    \<and> progress (snd (snd (client_method b f build ex c e))) = progress e1"
  using assms checkInitialize_returns [of b c e]
  by (auto simp add: client_method_def await_request_def split: prod.splits sum.splits)

lemma client_method_throws:
  assumes "checkInitialize b c e = (u, c1, e1)" and "build c1 = Inl err"
  shows "client_method b f build ex c e = (Inl (rethrow f err), c1, e1)"
  using assms checkInitialize_returns [of b c e]
  by (auto simp add: client_method_def split: prod.splits sum.splits)

lemma checkInitialize_cached:
  "str_truthy (workspaceRef c) \<Longrightarrow> checkInitialize b c e = (Inr (), c, e)"
  by (simp add: checkInitialize_def)

subsection \<open>Updating a story without fields\<close>

text \<open>
  C7. The \<open>updateStory\<close> tool called with an id and none of \<open>name\<close>, \<open>description\<close>, \<open>state\<close>,
  \<open>estimate\<close>, \<open>priority\<close> answers with the error "No fields provided for update. Story was
  not modified.", leaves the client as it was, issues no request and leaves the backend
  as it was; only the first progress notification has been written.
\<close>

theorem updateStory_without_fields_rejected:
  "updateStory_tool b has timer_first ident None None None None None c e =
     (failed ''No fields provided for update. Story was not modified.'', c,
      sendProgressUpdate has ''updateStory'' 10 ''Preparing story update data'' e)
   \<and> isError (fst (updateStory_tool b has timer_first ident None None None None None c e))
   \<and> calls (snd (snd (updateStory_tool b has timer_first ident None None None None None c e)))
       = calls e
   \<and> world (snd (snd (updateStory_tool b has timer_first ident None None None None None c e)))
       = world e"
  by (simp add: updateStory_tool_def updateStory_updateData_def failed_def sendProgressUpdate_def)

subsection \<open>The mapping of relationship kinds\<close>

text \<open>
  C1. For each row (kind, collection, cardinality) of the mapping table, the \<open>switch\<close> of
  \<open>createRelationship\<close> and \<open>removeRelationship\<close> gives that collection, and the collection
  is treated as a single reference exactly for the kind \<open>Parent\<close>. After the check for
  initialisation, \<open>createRelationship\<close> posts to the source artifact a body that sets the
  collection's field to a reference to the target (\<open>Parent\<close>) or to an instruction tagged
  \<open>add\<close> with that reference (every other kind); \<open>removeRelationship\<close> posts \<open>null\<close> for the
  field (\<open>Parent\<close>) or an instruction tagged \<open>remove\<close> with the reference.
\<close>

theorem relationship_mapping:
  assumes "(kind, coll, crd) \<in> set mapping_table"
    and "checkInitialize b c e = (u, c1, e1)"
  shows "collectionName kind = Some coll
    \<and> (isSingleReference coll \<longleftrightarrow> crd = Single)
    \<and> (crd = Single \<longleftrightarrow> kind = ''Parent'')
    \<and> calls (snd (snd (createRelationship b sourceId targetId kind c e)))
        = calls e1 @
          [\<lparr>verb = ''POST'', url = ''/HierarchicalRequirement/'' @ sourceId, params = [],
            body = JObj [(''HierarchicalRequirement'',
                     JObj [(coll,
                       (case crd of
                          Single \<Rightarrow> JObj [(''_ref'', JStr (''/HierarchicalRequirement/'' @ targetId))]
                        | Multi \<Rightarrow> JObj [(''_type'', JStr ''add''),
                                         (''_ref'', JStr (''/HierarchicalRequirement/'' @ targetId))]))])]\<rparr>]
    \<and> calls (snd (snd (removeRelationship b sourceId targetId kind c e)))
        = calls e1 @
          [\<lparr>verb = ''POST'', url = ''/HierarchicalRequirement/'' @ sourceId, params = [],
            body = JObj [(''HierarchicalRequirement'',
                     JObj [(coll,
                       (case crd of
                          Single \<Rightarrow> JNull
                        | Multi \<Rightarrow> JObj [(''_type'', JStr ''remove''),
                                         (''_ref'', JStr (''/HierarchicalRequirement/'' @ targetId))]))])]\<rparr>]"
proof -
  have rows: "(kind, coll, crd) = (''Predecessor'', ''Predecessors'', Multi)
      \<or> (kind, coll, crd) = (''Successor'', ''Successors'', Multi)
      \<or> (kind, coll, crd) = (''Parent'', ''Parent'', Single)
      \<or> (kind, coll, crd) = (''Child'', ''Children'', Multi)
      \<or> (kind, coll, crd) = (''Blocker'', ''Blockers'', Multi)
      \<or> (kind, coll, crd) = (''Blocked'', ''Blocked'', Multi)
      \<or> (kind, coll, crd) = (''Duplicate'', ''Duplicates'', Multi)
      \<or> (kind, coll, crd) = (''Duplicated'', ''Duplicated'', Multi)"
    using assms(1) by (simp add: mapping_table_def)
  have name: "collectionName kind = Some coll"
    using rows by (elim disjE) (simp_all add: collectionName_def)
  have single: "isSingleReference coll \<longleftrightarrow> crd = Single"
    using rows by (elim disjE) (simp_all add: isSingleReference_def)
  have parent: "crd = Single \<longleftrightarrow> kind = ''Parent''"
    using rows by (elim disjE) simp_all
  let ?ref = "JStr (''/HierarchicalRequirement/'' @ targetId)"
  have add: "relationship_request createRelationship_updateData sourceId targetId kind =
      Inr \<lparr>verb = ''POST'', url = ''/HierarchicalRequirement/'' @ sourceId, params = [],
           body = JObj [(''HierarchicalRequirement'',
                     JObj [(coll, (case crd of Single \<Rightarrow> JObj [(''_ref'', ?ref)]
                        | Multi \<Rightarrow> JObj [(''_type'', JStr ''add''), (''_ref'', ?ref)]))])]\<rparr>"
    using name single
    by (cases crd) (simp_all add: relationship_request_def createRelationship_updateData_def
        artifactType_def)
  have remove: "relationship_request removeRelationship_updateData sourceId targetId kind =
      Inr \<lparr>verb = ''POST'', url = ''/HierarchicalRequirement/'' @ sourceId, params = [],
           body = JObj [(''HierarchicalRequirement'',
                     JObj [(coll, (case crd of Single \<Rightarrow> JNull
                        | Multi \<Rightarrow> JObj [(''_type'', JStr ''remove''), (''_ref'', ?ref)]))])]\<rparr>"
    using name single
    by (cases crd) (simp_all add: relationship_request_def removeRelationship_updateData_def
        artifactType_def)
  show ?thesis
    using name single parent
      client_method_request [OF assms(2), where build = "\<lambda>c. relationship_request createRelationship_updateData sourceId targetId kind", OF add]
      client_method_request [OF assms(2), where build = "\<lambda>c. relationship_request removeRelationship_updateData sourceId targetId kind", OF remove]
    by (simp add: createRelationship_def removeRelationship_def)
qed

theorem relationship_mapping_witness:
  "(''Parent'', ''Parent'', Single) \<in> set mapping_table
   \<and> (''Blocker'', ''Blockers'', Multi) \<in> set mapping_table
   \<and> checkInitialize (stub_backend (ok JNull) (ok None) (ok None) (ok JNull))
         ((client_for ''42'' None)\<lparr>workspaceRef := Some ''/workspace/42''\<rparr>) fresh_env
       = (Inr (), (client_for ''42'' None)\<lparr>workspaceRef := Some ''/workspace/42''\<rparr>, fresh_env)
   \<and> collectionName ''Parent'' = Some ''Parent'' \<and> collectionName ''Blocker'' = Some ''Blockers''
   \<and> isSingleReference ''Parent'' \<and> \<not> isSingleReference ''Blockers''
   \<and> calls (snd (snd (createRelationship (stub_backend (ok JNull) (ok None) (ok None) (ok JNull))
         ''US1'' ''US2'' ''Parent''
         ((client_for ''42'' None)\<lparr>workspaceRef := Some ''/workspace/42''\<rparr>) fresh_env)))
       = [\<lparr>verb = ''POST'', url = ''/HierarchicalRequirement/US1'', params = [],
           body = JObj [(''HierarchicalRequirement'',
                    JObj [(''Parent'', JObj [(''_ref'', JStr ''/HierarchicalRequirement/US2'')])])]\<rparr>]
   \<and> calls (snd (snd (removeRelationship (stub_backend (ok JNull) (ok None) (ok None) (ok JNull))
         ''US1'' ''US2'' ''Parent''
         ((client_for ''42'' None)\<lparr>workspaceRef := Some ''/workspace/42''\<rparr>) fresh_env)))
       = [\<lparr>verb = ''POST'', url = ''/HierarchicalRequirement/US1'', params = [],
           body = JObj [(''HierarchicalRequirement'', JObj [(''Parent'', JNull)])]\<rparr>]
   \<and> calls (snd (snd (createRelationship (stub_backend (ok JNull) (ok None) (ok None) (ok JNull))
         ''US1'' ''US2'' ''Blocker''
         ((client_for ''42'' None)\<lparr>workspaceRef := Some ''/workspace/42''\<rparr>) fresh_env)))
       = [\<lparr>verb = ''POST'', url = ''/HierarchicalRequirement/US1'', params = [],
           body = JObj [(''HierarchicalRequirement'',
                    JObj [(''Blockers'', JObj [(''_type'', JStr ''add''),
                                               (''_ref'', JStr ''/HierarchicalRequirement/US2'')])])]\<rparr>]
   \<and> calls (snd (snd (removeRelationship (stub_backend (ok JNull) (ok None) (ok None) (ok JNull))
         ''US1'' ''US2'' ''Blocker''
         ((client_for ''42'' None)\<lparr>workspaceRef := Some ''/workspace/42''\<rparr>) fresh_env)))
       = [\<lparr>verb = ''POST'', url = ''/HierarchicalRequirement/US1'', params = [],
           body = JObj [(''HierarchicalRequirement'',
                    JObj [(''Blockers'', JObj [(''_type'', JStr ''remove''),
                                               (''_ref'', JStr ''/HierarchicalRequirement/US2'')])])]\<rparr>]"
proof -
  let ?b = "stub_backend (ok JNull) (ok None) (ok None) (ok JNull)"
  let ?c = "(client_for ''42'' None)\<lparr>workspaceRef := Some ''/workspace/42''\<rparr>"
  have init: "checkInitialize ?b ?c fresh_env = (Inr (), ?c, fresh_env)"
    by (simp add: checkInitialize_def str_truthy_def)
  have parent: "(''Parent'', ''Parent'', Single) \<in> set mapping_table"
    by (simp add: mapping_table_def)
  have blocker: "(''Blocker'', ''Blockers'', Multi) \<in> set mapping_table"
    by (simp add: mapping_table_def)
  show ?thesis
    using init parent blocker
      relationship_mapping [OF parent init, of "''US1''" "''US2''"]
      relationship_mapping [OF blocker init, of "''US1''" "''US2''"]
    by (simp add: fresh_env_def)
qed

subsection \<open>Reading relationships back\<close>

lemma map_of_set_prop: "map_of (set_prop ps k v) = (map_of ps)(k \<mapsto> v)"
  by (induction ps k v rule: set_prop.induct) auto

lemma keys_set_prop: "fst ` set (set_prop ps k v) = insert k (fst ` set ps)"
  by (induction ps k v rule: set_prop.induct) auto

lemma distinct_set_prop:
  "distinct (map fst ps) \<Longrightarrow> distinct (map fst (set_prop ps k v))"
  by (induction ps k v rule: set_prop.induct) (auto simp add: keys_set_prop)

lemma read_collection_same:
  "map_of (read_collection a f rel) f =
     (if truthy (get_prop a f)
      then Some (js_or (get_prop (get_prop a f) ''_tagsNameArray'') (JArr []))
      else map_of rel f)"
  by (simp add: read_collection_def map_of_set_prop)

lemma read_collection_other:
  "k \<noteq> f \<Longrightarrow> map_of (read_collection a f rel) k = map_of rel k"
  by (simp add: read_collection_def map_of_set_prop)

lemma read_parent_same:
  "map_of (read_parent a rel) ''Parent'' =
     (if truthy (get_prop a ''Parent'')
      then Some (get_prop (get_prop a ''Parent'') ''_refObjectName'')
      else map_of rel ''Parent'')"
  by (simp add: read_parent_def map_of_set_prop)

lemma read_parent_other:
  "k \<noteq> ''Parent'' \<Longrightarrow> map_of (read_parent a rel) k = map_of rel k"
  by (simp add: read_parent_def map_of_set_prop)

lemma snapshot_other:
  assumes "k \<notin> set collection_fields" and "k \<noteq> ''Parent''"
  shows "map_of (relationships_of a) k = None"
proof -
  have ne: "k \<noteq> ''Predecessors''" "k \<noteq> ''Successors''" "k \<noteq> ''Children''"
    "k \<noteq> ''Blocked''" "k \<noteq> ''Blocker''" "k \<noteq> ''Duplicates''"
    using assms(1) unfolding collection_fields_def by auto
  show ?thesis
    unfolding relationships_of_def
    by (simp only: read_collection_other [OF ne(1)] read_collection_other [OF ne(2)]
        read_collection_other [OF ne(3)] read_collection_other [OF ne(4)]
        read_collection_other [OF ne(5)] read_collection_other [OF ne(6)]
        read_parent_other [OF assms(2)] map_of.simps)
qed

lemma collection_in_snapshot:
  assumes "f \<in> set collection_fields"
  shows "map_of (relationships_of a) f =
     (if truthy (get_prop a f)
      then Some (js_or (get_prop (get_prop a f) ''_tagsNameArray'') (JArr []))
      else None)"
proof -
  have "f = ''Predecessors'' \<or> f = ''Successors'' \<or> f = ''Children''
    \<or> f = ''Blocked'' \<or> f = ''Blocker'' \<or> f = ''Duplicates''"
    using assms by (simp add: collection_fields_def)
  then show ?thesis
    by (elim disjE)
      (simp_all add: relationships_of_def read_collection_same read_collection_other
        read_parent_other)
qed

lemma parent_in_snapshot:
  "map_of (relationships_of a) ''Parent'' =
     (if truthy (get_prop a ''Parent'')
      then Some (get_prop (get_prop a ''Parent'') ''_refObjectName'')
      else None)"
  by (simp add: relationships_of_def read_collection_other read_parent_same)

lemma distinct_relationships_of: "distinct (map fst (relationships_of a))"
  by (simp add: relationships_of_def read_collection_def read_parent_def distinct_set_prop)

text \<open>
  C9. \<open>getRelationships\<close> asks the backend for the seven fields \<open>Predecessors\<close>, \<open>Successors\<close>,
  \<open>Children\<close>, \<open>Parent\<close>, \<open>Blocked\<close>, \<open>Blocker\<close>, \<open>Duplicates\<close>, and the snapshot that the
  tool builds has no key but these (each at most once): \<open>Duplicated\<close> is never a key. A
  collection field of the payload whose value is truthy (an object, when it is present) maps
  to its \<open>_tagsNameArray\<close>, and to the empty list when that array is missing; \<open>Parent\<close> maps
  to its \<open>_refObjectName\<close>; a field that the payload does not have is not a key of the
  snapshot. The payload is the one the backend returns: after the check for initialisation
  the tool issues one request, the \<open>GET\<close> of the artifact with the \<open>fetch\<close> parameter
  naming the seven fields, and when the backend answers it with data that is not \<open>null\<close>,
  the tool answers with the snapshot of the \<open>HierarchicalRequirement\<close> of that data (of the
  empty object if the data has none); when the backend rejects the request, the tool
  answers with an error.
\<close>

theorem getRelationships_snapshot:
  "map_of (params (getRelationships_request artifactId c)) ''fetch''
     = Some ''Predecessors,Successors,Children,Parent,Blocked,Blocker,Duplicates''
   \<and> distinct (map fst (relationships_of a))
   \<and> (\<forall>k. k \<notin> set collection_fields \<and> k \<noteq> ''Parent'' \<longrightarrow> map_of (relationships_of a) k = None)
   \<and> map_of (relationships_of a) ''Duplicated'' = None
   \<and> (\<forall>f \<in> set collection_fields.
        map_of (relationships_of a) f =
          (if truthy (get_prop a f)
           then Some (js_or (get_prop (get_prop a f) ''_tagsNameArray'') (JArr []))
           else None))
   \<and> (\<forall>f \<in> set collection_fields. \<forall>ps.
        get_prop a f = JObj ps \<longrightarrow>
          (map_of ps ''_tagsNameArray'' = None \<longrightarrow> map_of (relationships_of a) f = Some (JArr []))
          \<and> (\<forall>names. map_of ps ''_tagsNameArray'' = Some (JArr names)
                \<longrightarrow> map_of (relationships_of a) f = Some (JArr names)))
   \<and> map_of (relationships_of a) ''Parent'' =
        (if truthy (get_prop a ''Parent'')
         then Some (get_prop (get_prop a ''Parent'') ''_refObjectName'')
         else None)
   \<and> (\<forall>f. get_prop a f = JUndefined \<longrightarrow> map_of (relationships_of a) f = None)
   \<and> (\<forall>result c' e'.
        getRelationships b artifactId c e = (Inr result, c', e') \<and> \<not> nullish result \<longrightarrow>
          getRelationships_tool b artifactId c e =
            (succeeded [Lit (''Relationships for '' @ artifactId @ '':'' @ [CHR 0x0A]),
                        Stringify (JObj (relationships_of
                          (js_or (get_prop result ''HierarchicalRequirement'') (JObj []))))],
             c', e'))
   \<and> (\<forall>u c1 e1 r w' rsp.
        checkInitialize b c e = (u, c1, e1)
        \<and> artifacts b (getRelationships_request artifactId c1) (world e1) = (r, w')
        \<and> settled r = Resolved rsp \<and> \<not> nullish (data rsp) \<longrightarrow>
          getRelationships b artifactId c e =
            (Inr (data rsp), c1,
             e1\<lparr>world := w', calls := calls e1 @ [getRelationships_request artifactId c1]\<rparr>)
          \<and> getRelationships_tool b artifactId c e =
            (succeeded [Lit (''Relationships for '' @ artifactId @ '':'' @ [CHR 0x0A]),
                        Stringify (JObj (relationships_of
                          (js_or (get_prop (data rsp) ''HierarchicalRequirement'') (JObj []))))],
             c1,
             e1\<lparr>world := w', calls := calls e1 @ [getRelationships_request artifactId c1]\<rparr>))
   \<and> (\<forall>u c1 e1 r w' err.
        checkInitialize b c e = (u, c1, e1)
        \<and> artifacts b (getRelationships_request artifactId c1) (world e1) = (r, w')
        \<and> settled r = Rejected err \<longrightarrow>
          getRelationships_tool b artifactId c e =
            (failed (''Error getting relationships: ''
                     @ message (rethrow (''Failed to get relationships for '' @ artifactId @ '': '')
                                  err)),
             c1,
             e1\<lparr>world := w', calls := calls e1 @ [getRelationships_request artifactId c1]\<rparr>))"
proof -
  have fetch: "map_of (params (getRelationships_request artifactId c)) ''fetch''
     = Some ''Predecessors,Successors,Children,Parent,Blocked,Blocker,Duplicates''"
    by (simp add: getRelationships_request_def)
  have other: "\<forall>k. k \<notin> set collection_fields \<and> k \<noteq> ''Parent'' \<longrightarrow> map_of (relationships_of a) k = None"
    using snapshot_other by blast
  have duplicated: "map_of (relationships_of a) ''Duplicated'' = None"
    by (rule snapshot_other) (simp_all add: collection_fields_def)
  have coll: "\<forall>f \<in> set collection_fields.
        map_of (relationships_of a) f =
          (if truthy (get_prop a f)
           then Some (js_or (get_prop (get_prop a f) ''_tagsNameArray'') (JArr []))
           else None)"
    using collection_in_snapshot by blast
  have present: "\<forall>f \<in> set collection_fields. \<forall>ps.
        get_prop a f = JObj ps \<longrightarrow>
          (map_of ps ''_tagsNameArray'' = None \<longrightarrow> map_of (relationships_of a) f = Some (JArr []))
          \<and> (\<forall>names. map_of ps ''_tagsNameArray'' = Some (JArr names)
                \<longrightarrow> map_of (relationships_of a) f = Some (JArr names))"
    by (simp add: collection_in_snapshot js_or_def)
  have absent: "\<forall>f. get_prop a f = JUndefined \<longrightarrow> map_of (relationships_of a) f = None"
  proof (intro allI impI)
    fix f assume u: "get_prop a f = JUndefined"
    show "map_of (relationships_of a) f = None"
    proof (cases "f \<in> set collection_fields")
      case True
      then show ?thesis using u by (simp add: collection_in_snapshot)
    next
      case False
      then show ?thesis
        using u snapshot_other [of f a] parent_in_snapshot [of a] by (cases "f = ''Parent''") simp_all
    qed
  qed
  have tool: "\<forall>result c' e'.
        getRelationships b artifactId c e = (Inr result, c', e') \<and> \<not> nullish result \<longrightarrow>
          getRelationships_tool b artifactId c e =
            (succeeded [Lit (''Relationships for '' @ artifactId @ '':'' @ [CHR 0x0A]),
                        Stringify (JObj (relationships_of
                          (js_or (get_prop result ''HierarchicalRequirement'') (JObj []))))],
             c', e')"
    by (simp add: getRelationships_tool_def read_member_def)
  have answered: "\<forall>u c1 e1 r w' rsp.
        checkInitialize b c e = (u, c1, e1)
        \<and> artifacts b (getRelationships_request artifactId c1) (world e1) = (r, w')
        \<and> settled r = Resolved rsp \<and> \<not> nullish (data rsp) \<longrightarrow>
          getRelationships b artifactId c e =
            (Inr (data rsp), c1,
             e1\<lparr>world := w', calls := calls e1 @ [getRelationships_request artifactId c1]\<rparr>)
          \<and> getRelationships_tool b artifactId c e =
            (succeeded [Lit (''Relationships for '' @ artifactId @ '':'' @ [CHR 0x0A]),
                        Stringify (JObj (relationships_of
                          (js_or (get_prop (data rsp) ''HierarchicalRequirement'') (JObj []))))],
             c1,
             e1\<lparr>world := w', calls := calls e1 @ [getRelationships_request artifactId c1]\<rparr>)"
  proof (intro allI impI)
    fix u c1 e1 r w' rsp
    assume a: "checkInitialize b c e = (u, c1, e1)
        \<and> artifacts b (getRelationships_request artifactId c1) (world e1) = (r, w')
        \<and> settled r = Resolved rsp \<and> \<not> nullish (data rsp)"
    have u: "u = Inr ()"
      using a checkInitialize_returns [of b c e] by auto
    have client: "getRelationships b artifactId c e =
            (Inr (data rsp), c1,
             e1\<lparr>world := w', calls := calls e1 @ [getRelationships_request artifactId c1]\<rparr>)"
      using a u by (simp add: getRelationships_def client_method_def await_request_def)
    show "getRelationships b artifactId c e =
            (Inr (data rsp), c1,
             e1\<lparr>world := w', calls := calls e1 @ [getRelationships_request artifactId c1]\<rparr>)
          \<and> getRelationships_tool b artifactId c e =
            (succeeded [Lit (''Relationships for '' @ artifactId @ '':'' @ [CHR 0x0A]),
                        Stringify (JObj (relationships_of
                          (js_or (get_prop (data rsp) ''HierarchicalRequirement'') (JObj []))))],
             c1,
             e1\<lparr>world := w', calls := calls e1 @ [getRelationships_request artifactId c1]\<rparr>)"
      using a client by (simp add: getRelationships_tool_def read_member_def)
  qed
  have refused: "\<forall>u c1 e1 r w' err.
        checkInitialize b c e = (u, c1, e1)
        \<and> artifacts b (getRelationships_request artifactId c1) (world e1) = (r, w')
        \<and> settled r = Rejected err \<longrightarrow>
          getRelationships_tool b artifactId c e =
            (failed (''Error getting relationships: ''
                     @ message (rethrow (''Failed to get relationships for '' @ artifactId @ '': '')
                                  err)),
             c1,
             e1\<lparr>world := w', calls := calls e1 @ [getRelationships_request artifactId c1]\<rparr>)"
  proof (intro allI impI)
    fix u c1 e1 r w' err
    assume a: "checkInitialize b c e = (u, c1, e1)
        \<and> artifacts b (getRelationships_request artifactId c1) (world e1) = (r, w')
        \<and> settled r = Rejected err"
    have u: "u = Inr ()"
      using a checkInitialize_returns [of b c e] by auto
    have client: "getRelationships b artifactId c e =
            (Inl (rethrow (''Failed to get relationships for '' @ artifactId @ '': '') err), c1,
             e1\<lparr>world := w', calls := calls e1 @ [getRelationships_request artifactId c1]\<rparr>)"
      using a u by (simp add: getRelationships_def client_method_def await_request_def)
    show "getRelationships_tool b artifactId c e =
            (failed (''Error getting relationships: ''
                     @ message (rethrow (''Failed to get relationships for '' @ artifactId @ '': '')
                                  err)),
             c1,
             e1\<lparr>world := w', calls := calls e1 @ [getRelationships_request artifactId c1]\<rparr>)"
      using client by (simp add: getRelationships_tool_def)
  qed
  show ?thesis
    using fetch distinct_relationships_of [of a] other duplicated coll present
      parent_in_snapshot [of a] absent tool answered refused
    by (intro conjI)
qed

theorem getRelationships_snapshot_witness:
  "''Predecessors'' \<in> set collection_fields \<and> ''Children'' \<in> set collection_fields
   \<and> ''Blocked'' \<in> set collection_fields
   \<and> get_prop example_artifact ''Predecessors''
       = JObj [(''Count'', JNum 1), (''_tagsNameArray'', JArr [JStr ''US7''])]
   \<and> get_prop example_artifact ''Children'' = JObj [(''Count'', JNum 0)]
   \<and> get_prop example_artifact ''Blocked'' = JUndefined
   \<and> map_of (relationships_of example_artifact) ''Predecessors'' = Some (JArr [JStr ''US7''])
   \<and> map_of (relationships_of example_artifact) ''Children'' = Some (JArr [])
   \<and> map_of (relationships_of example_artifact) ''Blocked'' = None
   \<and> map_of (relationships_of example_artifact) ''Parent'' = Some (JStr ''Epic 1'')
   \<and> map_of (relationships_of example_artifact) ''Duplicated'' = None
   \<and> checkInitialize artifact_backend
        ((client_for ''42'' None)\<lparr>workspaceRef := Some ''/workspace/42''\<rparr>) fresh_env
     = (Inr (), (client_for ''42'' None)\<lparr>workspaceRef := Some ''/workspace/42''\<rparr>, fresh_env)
   \<and> artifacts artifact_backend
        (getRelationships_request ''US1''
           ((client_for ''42'' None)\<lparr>workspaceRef := Some ''/workspace/42''\<rparr>))
        (world fresh_env)
     = (ok (JObj [(''HierarchicalRequirement'', example_artifact)]), ())
   \<and> settled (ok (JObj [(''HierarchicalRequirement'', example_artifact)]))
     = Resolved \<lparr>status = 200, data = JObj [(''HierarchicalRequirement'', example_artifact)]\<rparr>
   \<and> \<not> nullish (JObj [(''HierarchicalRequirement'', example_artifact)])
   \<and> getRelationships_tool artifact_backend ''US1''
        ((client_for ''42'' None)\<lparr>workspaceRef := Some ''/workspace/42''\<rparr>) fresh_env
     = (succeeded [Lit (''Relationships for US1:'' @ [CHR 0x0A]),
                   Stringify (JObj [(''Predecessors'', JArr [JStr ''US7'']),
                                    (''Children'', JArr []),
                                    (''Parent'', JStr ''Epic 1'')])],
        (client_for ''42'' None)\<lparr>workspaceRef := Some ''/workspace/42''\<rparr>,
        fresh_env\<lparr>calls :=
          [\<lparr>verb = ''GET'', url = ''/HierarchicalRequirement/US1'',
            params = [(''fetch'', ''Predecessors,Successors,Children,Parent,Blocked,Blocker,Duplicates''),
                      (''workspace'', ''/workspace/42'')],
            body = JUndefined\<rparr>]\<rparr>)"
proof -
  let ?c = "(client_for ''42'' None)\<lparr>workspaceRef := Some ''/workspace/42''\<rparr>"
  let ?d = "JObj [(''HierarchicalRequirement'', example_artifact)]"
  have fields: "''Predecessors'' \<in> set collection_fields" "''Children'' \<in> set collection_fields"
    "''Blocked'' \<in> set collection_fields"
    by (simp_all add: collection_fields_def)
  have props: "get_prop example_artifact ''Predecessors''
       = JObj [(''Count'', JNum 1), (''_tagsNameArray'', JArr [JStr ''US7''])]"
    "get_prop example_artifact ''Children'' = JObj [(''Count'', JNum 0)]"
    "get_prop example_artifact ''Blocked'' = JUndefined"
    "get_prop example_artifact ''Parent'' = JObj [(''_refObjectName'', JStr ''Epic 1'')]"
    by (simp_all add: example_artifact_def)
  have whole: "relationships_of example_artifact =
       [(''Predecessors'', JArr [JStr ''US7'']), (''Children'', JArr []),
        (''Parent'', JStr ''Epic 1'')]"
    by (simp add: relationships_of_def read_collection_def read_parent_def example_artifact_def
        js_or_def)
  have init: "checkInitialize artifact_backend ?c fresh_env = (Inr (), ?c, fresh_env)"
    by (simp add: checkInitialize_def str_truthy_def)
  have answer: "artifacts artifact_backend (getRelationships_request ''US1'' ?c) (world fresh_env)
     = (ok ?d, ())"
    by (simp add: artifact_backend_def stub_backend_def)
  have resolved: "settled (ok ?d) = Resolved \<lparr>status = 200, data = ?d\<rparr>"
    by (simp add: ok_def)
  have present: "\<not> nullish ?d"
    by simp
  have request: "getRelationships_request ''US1'' ?c
     = \<lparr>verb = ''GET'', url = ''/HierarchicalRequirement/US1'',
        params = [(''fetch'', ''Predecessors,Successors,Children,Parent,Blocked,Blocker,Duplicates''),
                  (''workspace'', ''/workspace/42'')],
        body = JUndefined\<rparr>"
    by (simp add: getRelationships_request_def)
  have artifact: "js_or example_artifact (JObj []) = example_artifact"
    by (simp add: js_or_def example_artifact_def)
  note inst = getRelationships_snapshot [of "''US1''" ?c example_artifact artifact_backend fresh_env]
  note maps = inst [THEN conjunct2, THEN conjunct2, THEN conjunct2, THEN conjunct1]
    inst [THEN conjunct2, THEN conjunct2, THEN conjunct2, THEN conjunct2, THEN conjunct1]
    inst [THEN conjunct2, THEN conjunct2, THEN conjunct2, THEN conjunct2, THEN conjunct2,
      THEN conjunct2, THEN conjunct1]
  have run: "getRelationships_tool artifact_backend ''US1'' ?c fresh_env
     = (succeeded [Lit (''Relationships for US1:'' @ [CHR 0x0A]),
                   Stringify (JObj (relationships_of example_artifact))],
        ?c, fresh_env\<lparr>calls := [getRelationships_request ''US1'' ?c]\<rparr>)"
    using inst [THEN conjunct2, THEN conjunct2, THEN conjunct2, THEN conjunct2, THEN conjunct2,
        THEN conjunct2, THEN conjunct2, THEN conjunct2, THEN conjunct2, THEN conjunct1,
        rule_format, of "Inr ()" ?c fresh_env "ok ?d" "()" "\<lparr>status = 200, data = ?d\<rparr>",
        THEN conjunct2]
      init answer resolved present
    by (simp add: artifact fresh_env_def)
  show ?thesis
    using fields props maps init answer resolved present run
    by (simp add: whole request js_or_def)
qed

subsection \<open>Optional fields of a story\<close>

lemma to_json_props_absent:
  "k \<notin> fst ` set ps \<Longrightarrow> map_of (to_json_props ps) k = None"
  by (induction ps) (auto)

lemma map_of_to_json_props:
  "distinct (map fst ps) \<Longrightarrow>
   map_of (to_json_props ps) k =
     (case map_of ps k of None \<Rightarrow> None
      | Some v \<Rightarrow> if v = JUndefined then None else Some (to_json v))"
proof (induction ps)
  case Nil
  then show ?case by simp
next
  case (Cons p ps)
  obtain k' v where p: "p = (k', v)" by (cases p)
  show ?case
  proof (cases "k' = k")
    case True
    then have "k \<notin> fst ` set ps" using Cons.prems p by auto
    then have "map_of (to_json_props ps) k = None" by (rule to_json_props_absent)
    then show ?thesis using True p by simp
  next
    case False
    then show ?thesis using Cons p by simp
  qed
qed

lemma sent_field:
  assumes "distinct (map fst ps)"
  shows "get_prop (get_prop (to_json (JObj [(''HierarchicalRequirement'', JObj ps)]))
            ''HierarchicalRequirement'') k =
         (case map_of ps k of None \<Rightarrow> JUndefined
          | Some v \<Rightarrow> if v = JUndefined then JUndefined else to_json v)"
  using assms by (simp add: map_of_to_json_props split: option.splits)

lemma guarded_set_same:
  "map_of (case x of None \<Rightarrow> d | Some p \<Rightarrow> if P p then set_prop d k (f p) else d) k =
     (case x of None \<Rightarrow> map_of d k | Some p \<Rightarrow> if P p then Some (f p) else map_of d k)"
  by (simp add: map_of_set_prop split: option.splits)

lemma guarded_set_other:
  "k' \<noteq> k \<Longrightarrow>
   map_of (case x of None \<Rightarrow> d | Some p \<Rightarrow> if P p then set_prop d k (f p) else d) k' = map_of d k'"
  by (simp add: map_of_set_prop split: option.splits)

lemma guarded_set_distinct:
  "distinct (map fst d) \<Longrightarrow>
   distinct (map fst (case x of None \<Rightarrow> d | Some p \<Rightarrow> if P p then set_prop d k (f p) else d))"
  by (simp add: distinct_set_prop split: option.splits)

lemma defined_set_same:
  "map_of (case x of None \<Rightarrow> d | Some p \<Rightarrow> set_prop d k (f p)) k =
     (case x of None \<Rightarrow> map_of d k | Some p \<Rightarrow> Some (f p))"
  by (simp add: map_of_set_prop split: option.splits)

lemma defined_set_other:
  "k' \<noteq> k \<Longrightarrow>
   map_of (case x of None \<Rightarrow> d | Some p \<Rightarrow> set_prop d k (f p)) k' = map_of d k'"
  by (simp add: map_of_set_prop split: option.splits)

lemma defined_set_distinct:
  "distinct (map fst d) \<Longrightarrow>
   distinct (map fst (case x of None \<Rightarrow> d | Some p \<Rightarrow> set_prop d k (f p)))"
  by (simp add: distinct_set_prop split: option.splits)

lemma distinct_storyData:
  "distinct (map fst (createStory_storyData name description projectId state estimate priority))"
  unfolding createStory_storyData_def Let_def
  by (intro guarded_set_distinct) simp

lemma distinct_updateData:
  "distinct (map fst (updateStory_updateData name description state estimate priority))"
  unfolding updateStory_updateData_def Let_def
  by (intro defined_set_distinct) simp

lemma storyData_PlanEstimate:
  "map_of (createStory_storyData name description projectId state estimate priority) ''PlanEstimate''
     = (case estimate of None \<Rightarrow> None | Some x \<Rightarrow> if x \<noteq> 0 then Some (JNum x) else None)"
  by (simp add: createStory_storyData_def Let_def guarded_set_same guarded_set_other
      cong: option.case_cong if_cong split: option.splits)

lemma storyData_ScheduleState:
  "map_of (createStory_storyData name description projectId state estimate priority) ''ScheduleState''
     = (case state of None \<Rightarrow> None | Some x \<Rightarrow> if x \<noteq> [] then Some (JStr x) else None)"
  by (simp add: createStory_storyData_def Let_def guarded_set_same guarded_set_other
      cong: option.case_cong if_cong split: option.splits)

lemma storyData_Priority:
  "map_of (createStory_storyData name description projectId state estimate priority) ''Priority''
     = (case priority of None \<Rightarrow> None | Some x \<Rightarrow> if x \<noteq> [] then Some (JStr x) else None)"
  by (simp add: createStory_storyData_def Let_def guarded_set_same guarded_set_other
      cong: option.case_cong if_cong split: option.splits)

lemma storyData_Project:
  "map_of (createStory_storyData name description projectId state estimate priority) ''Project''
     = (case projectId of None \<Rightarrow> None
        | Some x \<Rightarrow> if x \<noteq> [] then Some (JObj [(''_ref'', JStr (''/project/'' @ x))]) else None)"
  by (simp add: createStory_storyData_def Let_def guarded_set_same guarded_set_other
      cong: option.case_cong if_cong split: option.splits)

lemma storyData_Description:
  "map_of (createStory_storyData name description projectId state estimate priority) ''Description''
     = Some (opt_str description)"
  by (simp add: createStory_storyData_def Let_def guarded_set_same guarded_set_other
      cong: option.case_cong if_cong split: option.splits)

lemma updateData_fields:
  "map_of (updateStory_updateData name description state estimate priority) ''Name''
     = map_option JStr name"
  "map_of (updateStory_updateData name description state estimate priority) ''Description''
     = map_option JStr description"
  "map_of (updateStory_updateData name description state estimate priority) ''ScheduleState''
     = map_option JStr state"
  "map_of (updateStory_updateData name description state estimate priority) ''PlanEstimate''
     = map_option JNum estimate"
  "map_of (updateStory_updateData name description state estimate priority) ''Priority''
     = map_option JStr priority"
  by (simp_all add: updateStory_updateData_def Let_def defined_set_same defined_set_other
      cong: option.case_cong split: option.splits)

lemma calls_sendProgressUpdate:
  "calls (sendProgressUpdate has operation percent text e) = calls e"
  by (simp add: sendProgressUpdate_def)

text \<open>
  C10, as stated, fails for \<open>projectId\<close> and for \<open>description\<close>: with a default project
  configured, a call of the \<open>createStory\<close> tool with the empty string as \<open>projectId\<close> and as
  \<open>description\<close> sends a \<open>Project\<close> field, that of the default project, and an empty
  \<open>Description\<close>.
\<close>

theorem createStory_empty_projectId_counterexample:
  "calls (snd (snd (createStory_tool
       (stub_backend (ok JNull) (ok None) (ok None)
          (ok (JObj [(''CreateResult'', JObj [(''Object'', JObj [(''FormattedID'', JStr ''US1'')])])])))
       False ''Story'' (Some '''') (Some '''') None None None
       ((client_for ''42'' (Some ''P1''))\<lparr>workspaceRef := Some ''/workspace/42''\<rparr>) fresh_env)))
   = [\<lparr>verb = ''POST'', url = ''/HierarchicalRequirement/create'', params = [],
       body = JObj [(''HierarchicalRequirement'',
                JObj [(''Name'', JStr ''Story''),
                      (''Description'', JStr ''''),
                      (''Workspace'', JObj [(''_ref'', JStr ''/workspace/42'')]),
                      (''Project'', JObj [(''_ref'', JStr ''/project/P1'')])])]\<rparr>]"
  by (simp add: createStory_tool_def createStory_def client_method_def checkInitialize_def
      str_truthy_def client_for_def RallyClient_def fresh_env_def sendProgressUpdate_def
      createStory_storyData_def createStory_request_def createStory_payload_def opt_str_def
      projectRef_def js_or_def await_request_def stub_backend_def ok_def read_member_def)

text \<open>
  C10, amended. The \<open>createStory\<close> tool sends \<open>PlanEstimate\<close>, \<open>ScheduleState\<close> and
  \<open>Priority\<close> only when the value given is truthy: an estimate of 0 and an empty state or
  priority leave the field out of the story sent to the backend. \<open>Project\<close> is set from
  \<open>projectId\<close> only when that is truthy; otherwise the field carries the client's default
  project, and is left out only when the client has none. \<open>Description\<close> is sent whenever
  a description is given, also an empty one. The request of the tool is the one built from
  these data after the check for initialisation. \<open>updateStory\<close>, in contrast, sends every
  field that is not \<open>undefined\<close>, also 0 and the empty string.
\<close>

theorem createStory_optional_fields:
  "get_prop (sent_story (createStory_request
       (createStory_storyData name description projectId state estimate priority) c)) ''PlanEstimate''
     = (case estimate of None \<Rightarrow> JUndefined | Some x \<Rightarrow> if x \<noteq> 0 then JNum x else JUndefined)
   \<and> get_prop (sent_story (createStory_request
       (createStory_storyData name description projectId state estimate priority) c)) ''ScheduleState''
     = (case state of None \<Rightarrow> JUndefined | Some x \<Rightarrow> if x \<noteq> [] then JStr x else JUndefined)
   \<and> get_prop (sent_story (createStory_request
       (createStory_storyData name description projectId state estimate priority) c)) ''Priority''
     = (case priority of None \<Rightarrow> JUndefined | Some x \<Rightarrow> if x \<noteq> [] then JStr x else JUndefined)
   \<and> get_prop (sent_story (createStory_request
       (createStory_storyData name description projectId state estimate priority) c)) ''Project''
     = (if str_truthy projectId then JObj [(''_ref'', JStr (''/project/'' @ the projectId))]
        else (case projectRef c of None \<Rightarrow> JUndefined | Some r \<Rightarrow> JObj [(''_ref'', JStr r)]))
   \<and> get_prop (sent_story (createStory_request
       (createStory_storyData name description projectId state estimate priority) c)) ''Description''
     = opt_str description
   \<and> calls (snd (snd (createStory_tool b has name description projectId state estimate priority c e)))
     = calls (snd (snd (checkInitialize b c
         (sendProgressUpdate has ''createStory'' 50 ''Sending request to Rally API''
           (sendProgressUpdate has ''createStory'' 10 ''Preparing story data'' e)))))
       @ [createStory_request (createStory_storyData name description projectId state estimate priority)
            (fst (snd (checkInitialize b c
              (sendProgressUpdate has ''createStory'' 50 ''Sending request to Rally API''
                (sendProgressUpdate has ''createStory'' 10 ''Preparing story data'' e)))))]
   \<and> get_prop (sent_story (updateStory_request ident
       (updateStory_updateData uname udescription ustate uestimate upriority))) ''PlanEstimate''
     = (case uestimate of None \<Rightarrow> JUndefined | Some x \<Rightarrow> JNum x)
   \<and> get_prop (sent_story (updateStory_request ident
       (updateStory_updateData uname udescription ustate uestimate upriority))) ''ScheduleState''
     = (case ustate of None \<Rightarrow> JUndefined | Some x \<Rightarrow> JStr x)
   \<and> get_prop (sent_story (updateStory_request ident
       (updateStory_updateData uname udescription ustate uestimate upriority))) ''Priority''
     = (case upriority of None \<Rightarrow> JUndefined | Some x \<Rightarrow> JStr x)"
proof -
  let ?sd = "createStory_storyData name description projectId state estimate priority"
  let ?ud = "updateStory_updateData uname udescription ustate uestimate upriority"
  let ?w = "JObj [(''_ref'', opt_str (workspaceRef c))]"
  let ?p = "js_or (get_prop (JObj ?sd) ''Project'')
              (case projectRef c of None \<Rightarrow> JUndefined | Some r \<Rightarrow> JObj [(''_ref'', JStr r)])"
  let ?fields = "set_prop (set_prop ?sd ''Workspace'' ?w) ''Project'' ?p"
  have d: "distinct (map fst ?fields)"
    by (intro distinct_set_prop distinct_storyData)
  have sent: "get_prop (sent_story (createStory_request ?sd c)) k =
      (case map_of ?fields k of None \<Rightarrow> JUndefined
       | Some v \<Rightarrow> if v = JUndefined then JUndefined else to_json v)" for k
    using sent_field [OF d, of k]
    by (simp add: sent_story_def createStory_request_def createStory_payload_def)
  have estimate: "get_prop (sent_story (createStory_request ?sd c)) ''PlanEstimate''
     = (case estimate of None \<Rightarrow> JUndefined | Some x \<Rightarrow> if x \<noteq> 0 then JNum x else JUndefined)"
    unfolding sent by (simp add: map_of_set_prop storyData_PlanEstimate split: option.splits)
  have state: "get_prop (sent_story (createStory_request ?sd c)) ''ScheduleState''
     = (case state of None \<Rightarrow> JUndefined | Some x \<Rightarrow> if x \<noteq> [] then JStr x else JUndefined)"
    unfolding sent by (simp add: map_of_set_prop storyData_ScheduleState split: option.splits)
  have priority: "get_prop (sent_story (createStory_request ?sd c)) ''Priority''
     = (case priority of None \<Rightarrow> JUndefined | Some x \<Rightarrow> if x \<noteq> [] then JStr x else JUndefined)"
    unfolding sent by (simp add: map_of_set_prop storyData_Priority split: option.splits)
  have project: "get_prop (sent_story (createStory_request ?sd c)) ''Project''
     = (if str_truthy projectId then JObj [(''_ref'', JStr (''/project/'' @ the projectId))]
        else (case projectRef c of None \<Rightarrow> JUndefined | Some r \<Rightarrow> JObj [(''_ref'', JStr r)]))"
    unfolding sent
    by (simp add: map_of_set_prop storyData_Project js_or_def str_truthy_def split: option.splits)
  have description: "get_prop (sent_story (createStory_request ?sd c)) ''Description''
     = opt_str description"
    unfolding sent
    by (simp add: map_of_set_prop storyData_Description opt_str_def split: option.splits)
  obtain c1 e1 where init: "checkInitialize b c
         (sendProgressUpdate has ''createStory'' 50 ''Sending request to Rally API''
           (sendProgressUpdate has ''createStory'' 10 ''Preparing story data'' e)) = (Inr (), c1, e1)"
    using checkInitialize_returns by blast
  let ?e = "sendProgressUpdate has ''createStory'' 50 ''Sending request to Rally API''
           (sendProgressUpdate has ''createStory'' 10 ''Preparing story data'' e)"
  have "calls (snd (snd (createStory_tool b has name description projectId state estimate priority c e)))
     = calls (snd (snd (createStory b ?sd c ?e)))"
    by (simp add: createStory_tool_def Let_def calls_sendProgressUpdate
        split: prod.splits sum.splits)
  then have tool: "calls (snd (snd (createStory_tool b has name description projectId state estimate priority c e)))
     = calls e1 @ [createStory_request ?sd c1]"
    using client_method_request [OF init, where build = "\<lambda>c. Inr (createStory_request ?sd c)"
        and f = "''Failed to create story: ''"
        and ex = "\<lambda>d. case read_member d ''CreateResult'' of
               Inl err \<Rightarrow> Inl err
             | Inr r \<Rightarrow> read_member r ''Object''"]
    by (simp add: createStory_def)
  have du: "distinct (map fst ?ud)"
    by (rule distinct_updateData)
  have usent: "get_prop (sent_story (updateStory_request ident ?ud)) k =
      (case map_of ?ud k of None \<Rightarrow> JUndefined
       | Some v \<Rightarrow> if v = JUndefined then JUndefined else to_json v)" for k
    using sent_field [OF du, of k] by (simp add: sent_story_def updateStory_request_def)
  have uestimate: "get_prop (sent_story (updateStory_request ident ?ud)) ''PlanEstimate''
     = (case uestimate of None \<Rightarrow> JUndefined | Some x \<Rightarrow> JNum x)"
    unfolding usent by (simp add: updateData_fields split: option.splits)
  have ustate: "get_prop (sent_story (updateStory_request ident ?ud)) ''ScheduleState''
     = (case ustate of None \<Rightarrow> JUndefined | Some x \<Rightarrow> JStr x)"
    unfolding usent by (simp add: updateData_fields split: option.splits)
  have upriority: "get_prop (sent_story (updateStory_request ident ?ud)) ''Priority''
     = (case upriority of None \<Rightarrow> JUndefined | Some x \<Rightarrow> JStr x)"
    unfolding usent by (simp add: updateData_fields split: option.splits)
  show ?thesis
    using estimate state priority project description tool uestimate ustate upriority
    by (simp only: init fst_conv snd_conv simp_thms)
qed

subsection \<open>What workspace resolution does to the client and to the backend\<close>


lemma await_raced_effect:
  "await_raced answer rq m e = (r, e') \<Longrightarrow> calls e' = calls e @ [rq] \<and> progress e' = progress e"
  by (auto simp add: await_raced_def split: prod.splits)

lemma listWorkspaces_effect:
  assumes "listWorkspaces b c e = (r, c', e')"
  shows "calls e' = calls e @ [workspace_list_request] \<and> progress e' = progress e"
  using assms
  by (auto simp add: listWorkspaces_def raceWorkspaceList_def
      split: prod.splits sum.splits list.splits if_splits dest!: await_raced_effect)

lemma queryWorkspace_effect:
  assumes "queryWorkspace b c e = (r, c', e')"
  shows "(calls e' = calls e @ [workspace_query_request c]
          \<or> calls e' = calls e @ [workspace_query_request c, workspace_list_request])
         \<and> progress e' = progress e"
  using assms
  by (auto simp add: queryWorkspace_def raceWorkspaceQuery_def
      split: prod.splits sum.splits list.splits dest!: await_raced_effect listWorkspaces_effect)

lemma validateCredentials_effect:
  assumes "validateCredentials b c e = (r, c', e')"
  shows "(calls e' = calls e @ [subscription_request]
          \<or> calls e' = calls e @ [subscription_request, workspace_query_request c]
          \<or> calls e' = calls e @ [subscription_request, workspace_query_request c,
                                   workspace_list_request])
         \<and> progress e' = progress e"
  using assms
  by (auto simp add: validateCredentials_def pingSubscription_def checkWorkspace_def
      raceSubscription_def split: prod.splits sum.splits if_splits
      dest!: await_raced_effect queryWorkspace_effect)

lemma credentialsFailure_invalid: "\<not> valid (credentialsFailure err)"
  by (cases err rule: credentialsFailure.cases) simp_all

lemma validateCredentials_client:
  assumes "validateCredentials b c e = (Inr v, c', e')"
  shows "(valid v \<longrightarrow> (\<exists>i. c' = c\<lparr>workspaceRef := Some (''/workspace/'' @ i)\<rparr>))
         \<and> (\<not> valid v \<longrightarrow> c' = c)"
  using assms
  by (auto simp add: validateCredentials_def pingSubscription_def checkWorkspace_def
      queryWorkspace_def listWorkspaces_def
      credentialsFailure_invalid
      split: prod.splits sum.splits if_splits list.splits option.splits)


lemma checkInitialize_effect:
  assumes "checkInitialize b c e = (u, c1, e1)"
  shows "(calls e1 = calls e
          \<or> calls e1 = calls e @ [subscription_request]
          \<or> calls e1 = calls e @ [subscription_request, workspace_query_request c]
          \<or> calls e1 = calls e @ [subscription_request, workspace_query_request c,
                                   workspace_list_request])
         \<and> progress e1 = progress e"
  using assms
  by (auto simp add: checkInitialize_def split: if_splits prod.splits sum.splits
      dest!: validateCredentials_effect)

lemma client_for_fields:
  "workspaceRef (client_for token proj) = None"
  "workspace (client_for token proj) = token"
  "project (client_for token proj) = proj"
  by (simp_all add: client_for_def RallyClient_def)

lemma show_nat_42: "show_nat 42 = ''42''"
  by (simp add: show_nat.simps digit_char_def)

lemma team_resolution:
  "validateCredentials team_backend (client_for ''42'' None) fresh_env =
     (Inr \<lparr>valid = True, error = None\<rparr>,
      (client_for ''42'' None)\<lparr>workspaceRef := Some ''/workspace/42''\<rparr>,
      fresh_env\<lparr>calls := [subscription_request, workspace_query_request (client_for ''42'' None)]\<rparr>)"
  by (simp add: validateCredentials_def pingSubscription_def checkWorkspace_def queryWorkspace_def
      raceSubscription_def raceWorkspaceQuery_def await_raced_def team_backend_def
      stub_backend_def ok_def listed_def results_of_def
      team_a_def objectId_def show_nat_42 fresh_env_def subscription_request_def
      workspace_query_request_def)

subsection \<open>Relationship types outside the eight\<close>

lemma unknown_kind: "kind \<notin> set relationshipTypes \<Longrightarrow> collectionName kind = None"
  by (simp add: relationshipTypes_def collectionName_def)

text \<open>
  C6. A call of the \<open>createRelationship\<close> or the \<open>removeRelationship\<close> tool with a
  relationship type outside the eight is answered with an invalid-arguments error that
  carries the message "Relationship type must be one of: ...", whatever the other
  arguments are; the handler does not run, so the client and everything outside it (the
  backend's state, the requests issued, the progress written) are as before the call: no
  request is made. The client's own \<open>switch\<close>, which only a value that passed the schema
  reaches, has a \<open>default\<close> branch that throws "Unsupported relationship type: <value>"
  for any other string: no request for a relationship is built from such a value, the
  client's methods throw and the handlers answer with an error, never with success.
\<close>

theorem unknown_relationship_type_rejected:
  assumes "kind \<notin> set relationshipTypes"
  shows "call_createRelationship b sourceId targetId kind c e
           = (InvalidArguments (schema_issues sourceId targetId kind), c, e)
    \<and> call_removeRelationship b sourceId targetId kind c e
           = (InvalidArguments (schema_issues sourceId targetId kind), c, e)
    \<and> relationshipType_message \<in> set (schema_issues sourceId targetId kind)
    \<and> relationship_request createRelationship_updateData sourceId targetId kind
           = Inl (Error (''Unsupported relationship type: '' @ kind))
    \<and> relationship_request removeRelationship_updateData sourceId targetId kind
           = Inl (Error (''Unsupported relationship type: '' @ kind))
    \<and> fst (createRelationship b sourceId targetId kind c e)
           = Inl (Error (''Unsupported relationship type: '' @ kind))
    \<and> fst (removeRelationship b sourceId targetId kind c e)
           = Inl (Error (''Unsupported relationship type: '' @ kind))
    \<and> isError (fst (createRelationship_tool b sourceId targetId kind c e))
    \<and> isError (fst (removeRelationship_tool b sourceId targetId kind c e))"
proof -
  have none: "collectionName kind = None"
    using assms by (rule unknown_kind)
  obtain c1 e1 where init: "checkInitialize b c e = (Inr (), c1, e1)"
    using checkInitialize_returns by blast
  have issue: "relationshipType_message \<in> set (schema_issues sourceId targetId kind)"
    using assms by (simp add: schema_issues_def)
  then have issues: "schema_issues sourceId targetId kind \<noteq> []"
    by auto
  have call_create: "call_createRelationship b sourceId targetId kind c e
           = (InvalidArguments (schema_issues sourceId targetId kind), c, e)"
    using issues by (simp add: call_createRelationship_def call_tool_def)
  have call_remove: "call_removeRelationship b sourceId targetId kind c e
           = (InvalidArguments (schema_issues sourceId targetId kind), c, e)"
    using issues by (simp add: call_removeRelationship_def call_tool_def)
  have build: "relationship_request upd sourceId targetId kind
           = Inl (Error (''Unsupported relationship type: '' @ kind))" for upd
    by (simp add: relationship_request_def none)
  have create: "createRelationship b sourceId targetId kind c e
           = (Inl (Error (''Unsupported relationship type: '' @ kind)), c1, e1)"
    using client_method_throws [OF init,
        where build = "\<lambda>c. relationship_request createRelationship_updateData sourceId targetId kind"]
    by (simp add: createRelationship_def build rethrow_def)
  have remove: "removeRelationship b sourceId targetId kind c e
           = (Inl (Error (''Unsupported relationship type: '' @ kind)), c1, e1)"
    using client_method_throws [OF init,
        where build = "\<lambda>c. relationship_request removeRelationship_updateData sourceId targetId kind"]
    by (simp add: removeRelationship_def build rethrow_def)
  have create_tool: "isError (fst (createRelationship_tool b sourceId targetId kind c e))"
    using create by (simp add: createRelationship_tool_def failed_def)
  have remove_tool: "isError (fst (removeRelationship_tool b sourceId targetId kind c e))"
    using remove by (simp add: removeRelationship_tool_def failed_def)
  have fst_create: "fst (createRelationship b sourceId targetId kind c e)
           = Inl (Error (''Unsupported relationship type: '' @ kind))"
    using create by simp
  have fst_remove: "fst (removeRelationship b sourceId targetId kind c e)
           = Inl (Error (''Unsupported relationship type: '' @ kind))"
    using remove by simp
  show ?thesis
    by (intro conjI call_create call_remove issue build fst_create fst_remove create_tool
        remove_tool)
qed

theorem unknown_relationship_type_witness:
  "''Friend'' \<notin> set relationshipTypes
   \<and> call_createRelationship team_backend ''US1'' ''US2'' ''Friend'' (client_for ''42'' None)
       fresh_env
     = (InvalidArguments [relationshipType_message], client_for ''42'' None, fresh_env)
   \<and> call_removeRelationship team_backend ''US1'' '''' ''Friend'' (client_for ''42'' None)
       fresh_env
     = (InvalidArguments [''Target ID is required'', relationshipType_message],
        client_for ''42'' None, fresh_env)"
proof -
  have kind: "''Friend'' \<notin> set relationshipTypes"
    by (simp add: relationshipTypes_def)
  have issues: "schema_issues ''US1'' ''US2'' ''Friend'' = [relationshipType_message]"
    "schema_issues ''US1'' '''' ''Friend'' = [''Target ID is required'', relationshipType_message]"
    by (simp_all add: schema_issues_def relationshipTypes_def)
  show ?thesis
    using kind
      unknown_relationship_type_rejected [OF kind, of team_backend "''US1''" "''US2''"
        "client_for ''42'' None" fresh_env]
      unknown_relationship_type_rejected [OF kind, of team_backend "''US1''" "''''"
        "client_for ''42'' None" fresh_env]
    by (simp add: issues)
qed

text \<open>
  A call with one of the eight types and two different identifiers passes the schema and
  is answered by the handler.
\<close>

lemma call_passes_schema:
  assumes "kind \<in> set relationshipTypes" and "sourceId \<noteq> []" and "targetId \<noteq> []"
  shows "call_createRelationship b sourceId targetId kind c e
           = (case createRelationship_tool b sourceId targetId kind c e of
                (r, c', e') \<Rightarrow> (Answer r, c', e'))"
    and "call_removeRelationship b sourceId targetId kind c e
           = (case removeRelationship_tool b sourceId targetId kind c e of
                (r, c', e') \<Rightarrow> (Answer r, c', e'))"
  using assms
  by (simp_all add: call_createRelationship_def call_removeRelationship_def call_tool_def
      schema_issues_def)

subsection \<open>A relationship of an artifact with itself\<close>

text \<open>
  C5. The \<open>createRelationship\<close> tool answers a call whose source and target are the same
  with the error "Source and target cannot be the same artifact.", for every relationship
  type, without touching the client or the backend. The \<open>removeRelationship\<close> tool has no
  such check: called with source and target \<open>US1\<close> it posts the removal to the backend
  and reports success.
\<close>

theorem self_relationship_checked_on_create_only:
  "createRelationship_tool b x x kind c e
     = (failed ''Source and target cannot be the same artifact.'', c, e)
   \<and> removeRelationship_tool team_backend ''US1'' ''US1'' ''Predecessor''
       ((client_for ''42'' None)\<lparr>workspaceRef := Some ''/workspace/42''\<rparr>) fresh_env
     = (succeeded [Lit ''Successfully removed Predecessor relationship from US1 to US1''],
        (client_for ''42'' None)\<lparr>workspaceRef := Some ''/workspace/42''\<rparr>,
        fresh_env\<lparr>calls :=
          [\<lparr>verb = ''POST'', url = ''/HierarchicalRequirement/US1'', params = [],
            body = JObj [(''HierarchicalRequirement'',
                     JObj [(''Predecessors'',
                            JObj [(''_type'', JStr ''remove''),
                                  (''_ref'', JStr ''/HierarchicalRequirement/US1'')])])]\<rparr>]\<rparr>)"
  by (simp add: createRelationship_tool_def removeRelationship_tool_def removeRelationship_def
      client_method_def checkInitialize_def str_truthy_def relationship_request_def
      collectionName_def removeRelationship_updateData_def isSingleReference_def artifactType_def
      await_request_def team_backend_def stub_backend_def ok_def fresh_env_def)

text \<open>
  The call of this example passes the schema of both tools, so it is the handlers that
  answer it: the one of \<open>createRelationship\<close> with its error, the one of
  \<open>removeRelationship\<close> after the removal has been posted.
\<close>

lemma self_relationship_passes_schema:
  "schema_issues ''US1'' ''US1'' ''Predecessor'' = []
   \<and> call_createRelationship team_backend ''US1'' ''US1'' ''Predecessor''
       ((client_for ''42'' None)\<lparr>workspaceRef := Some ''/workspace/42''\<rparr>) fresh_env
     = (Answer (failed ''Source and target cannot be the same artifact.''),
        (client_for ''42'' None)\<lparr>workspaceRef := Some ''/workspace/42''\<rparr>, fresh_env)
   \<and> call_removeRelationship team_backend ''US1'' ''US1'' ''Predecessor''
       ((client_for ''42'' None)\<lparr>workspaceRef := Some ''/workspace/42''\<rparr>) fresh_env
     = (Answer (succeeded [Lit ''Successfully removed Predecessor relationship from US1 to US1'']),
        (client_for ''42'' None)\<lparr>workspaceRef := Some ''/workspace/42''\<rparr>,
        fresh_env\<lparr>calls :=
          [\<lparr>verb = ''POST'', url = ''/HierarchicalRequirement/US1'', params = [],
            body = JObj [(''HierarchicalRequirement'',
                     JObj [(''Predecessors'',
                            JObj [(''_type'', JStr ''remove''),
                                  (''_ref'', JStr ''/HierarchicalRequirement/US1'')])])]\<rparr>]\<rparr>)"
proof -
  have passes: "schema_issues ''US1'' ''US1'' ''Predecessor'' = []"
    by (simp add: schema_issues_def relationshipTypes_def)
  show ?thesis
    by (simp add: passes call_createRelationship_def call_removeRelationship_def call_tool_def
      createRelationship_tool_def removeRelationship_tool_def removeRelationship_def
      client_method_def checkInitialize_def str_truthy_def relationship_request_def
      collectionName_def removeRelationship_updateData_def isSingleReference_def artifactType_def
      await_request_def team_backend_def stub_backend_def ok_def fresh_env_def)
qed

subsection \<open>Substrings\<close>

lemma starts_with_iff: "starts_with p s \<longleftrightarrow> (\<exists>post. s = p @ post)"
  by (induction p s rule: starts_with.induct) auto

lemma str_includes_iff: "str_includes s t \<longleftrightarrow> (\<exists>pre post. s = pre @ t @ post)"
proof (induction s)
  case Nil
  then show ?case by auto
next
  case (Cons c cs)
  show ?case
  proof
    assume "str_includes (c # cs) t"
    then consider "starts_with t (c # cs)" | "str_includes cs t" by auto
    then show "\<exists>pre post. c # cs = pre @ t @ post"
    proof cases
      case 1
      then obtain post where "c # cs = t @ post" using starts_with_iff by blast
      then have "c # cs = [] @ t @ post" by simp
      then show ?thesis by blast
    next
      case 2
      then obtain pre post where "cs = pre @ t @ post" using Cons.IH by blast
      then have "c # cs = (c # pre) @ t @ post" by simp
      then show ?thesis by blast
    qed
  next
    assume "\<exists>pre post. c # cs = pre @ t @ post"
    then obtain pre post where eq: "c # cs = pre @ t @ post" by blast
    show "str_includes (c # cs) t"
    proof (cases pre)
      case Nil
      then have "starts_with t (c # cs)" using eq starts_with_iff by auto
      then show ?thesis by simp
    next
      case (Cons a pre')
      then have "cs = pre' @ t @ post" using eq by simp
      then have "str_includes cs t" using Cons.IH by blast
      then show ?thesis by simp
    qed
  qed
qed

subsection \<open>The stages of validateCredentials\<close>

lemma ping_then_check:
  assumes "raceSubscription b e = (Inr rsp, e1)" and "status rsp = 200" and "truthy (data rsp)"
  shows "validateCredentials b c e = checkWorkspace b c e1"
  using assms checkWorkspace_def [of b c e1]
  by (simp add: validateCredentials_def pingSubscription_def split: prod.splits sum.splits)

lemma resolved_by_query:
  assumes "raceWorkspaceQuery b c e1 = (Inr chk, e2)" and "results_of (data chk) = w # rest"
  shows "checkWorkspace b c e1 =
     (Inr \<lparr>valid = True, error = None\<rparr>,
      c\<lparr>workspaceRef := Some (''/workspace/'' @ show_id (objectId w))\<rparr>, e2)"
  using assms by (simp add: checkWorkspace_def queryWorkspace_def)

lemma resolved_by_listing:
  assumes "raceWorkspaceQuery b c e1 = (Inr chk, e2)" and "results_of (data chk) = []"
    and "raceWorkspaceList b e2 = (Inr lst, e3)" and "results_of (data lst) = fw # rest"
  shows "checkWorkspace b c e1 =
     (case matchingWorkspace b c (fw # rest) of
        Some m \<Rightarrow>
          (Inr \<lparr>valid = True, error = None\<rparr>,
           c\<lparr>workspaceRef := Some (''/workspace/'' @ show_id (objectId m))\<rparr>, e3)
      | None \<Rightarrow>
          (Inr \<lparr>valid = True, error = Some (not_found_advisory c fw)\<rparr>,
           c\<lparr>workspaceRef := Some (''/workspace/'' @ show_id (firstWorkspaceId fw))\<rparr>, e3))"
  using assms
  by (simp add: checkWorkspace_def queryWorkspace_def listWorkspaces_def split: option.splits)





lemma matchingWorkspace_first:
  assumes "matchingWorkspace b c ws = Some m"
  shows "\<not> workspaceIsNumeric c \<and> workspace c \<noteq> []
    \<and> (\<exists>i < length ws. m = ws ! i \<and> name_matches b c m \<and> (\<forall>j < i. \<not> name_matches b c (ws ! j)))
    \<and> (\<exists>nm. Name m = Some nm
          \<and> (\<exists>pre post. toLowerCase b nm = pre @ toLowerCase b (workspace c) @ post))"
proof -
  have guard: "\<not> workspaceIsNumeric c \<and> workspace c \<noteq> []"
    and f: "find (name_matches b c) ws = Some m"
    using assms by (auto simp add: matchingWorkspace_def split: if_splits)
  from f obtain i where i: "i < length ws" "name_matches b c (ws ! i)" "m = ws ! i"
      "\<forall>j < i. \<not> name_matches b c (ws ! j)"
    unfolding find_Some_iff by blast
  have "name_matches b c m" using i by simp
  then have "\<exists>nm. Name m = Some nm
      \<and> (\<exists>pre post. toLowerCase b nm = pre @ toLowerCase b (workspace c) @ post)"
    by (auto simp add: name_matches_def str_includes_iff split: option.splits)
  then show ?thesis using guard i by blast
qed

lemma await_stub:
  "raceSubscription (stub_backend p q l a) e
     = ((if late p then Inl (Error ''Subscription request timed out after 30 seconds'')
         else (case settled p of Resolved x \<Rightarrow> Inr x | Rejected err \<Rightarrow> Inl err)),
        e\<lparr>calls := calls e @ [subscription_request]\<rparr>)"
  "raceWorkspaceQuery (stub_backend p q l a) c e
     = ((if late q then Inl (Error ''Workspace request timed out after 30 seconds'')
         else (case settled q of Resolved x \<Rightarrow> Inr x | Rejected err \<Rightarrow> Inl err)),
        e\<lparr>calls := calls e @ [workspace_query_request c]\<rparr>)"
  "raceWorkspaceList (stub_backend p q l a) e
     = ((if late l then Inl (Error ''Workspace listing timed out after 30 seconds'')
         else (case settled l of Resolved x \<Rightarrow> Inr x | Rejected err \<Rightarrow> Inl err)),
        e\<lparr>calls := calls e @ [workspace_list_request]\<rparr>)"
  by (simp_all add: raceSubscription_def raceWorkspaceQuery_def raceWorkspaceList_def
      await_raced_def stub_backend_def workspace_query_request_def workspace_list_request_def)

lemma alpha_team_matches:
  "matchingWorkspace (listing_backend ws) (client_for ''alpha'' None) [alpha_team] = Some alpha_team"
  by (simp add: matchingWorkspace_def name_matches_def alpha_team_def client_for_def
      RallyClient_def is_digit_def listing_backend_def stub_backend_def ascii_toLowerCase_def
      to_lower_char_def)

lemma show_nat_7: "show_nat 7 = ''7''"
  by (simp add: show_nat.simps digit_char_def)

subsection \<open>Workspace resolution and its advisory\<close>

text \<open>
  C2, as stated, fails for the substring match: the configured name \<open>alpha\<close> is not found
  by the query, the listing holds "Alpha Team", and \<open>validateCredentials\<close> answers valid with
  the reference of that workspace and no advisory.
\<close>

theorem substring_match_counterexample:
  "results_of (listed []) = []
   \<and> matchingWorkspace (listing_backend [alpha_team]) (client_for ''alpha'' None) [alpha_team]
     = Some alpha_team
   \<and> validateCredentials (listing_backend [alpha_team]) (client_for ''alpha'' None) fresh_env
     = (Inr \<lparr>valid = True, error = None\<rparr>,
        (client_for ''alpha'' None)\<lparr>workspaceRef := Some ''/workspace/7''\<rparr>,
        fresh_env\<lparr>calls := [subscription_request,
                               workspace_query_request (client_for ''alpha'' None),
                               workspace_list_request]\<rparr>)"
proof -
  have run: "validateCredentials (listing_backend [alpha_team]) (client_for ''alpha'' None) fresh_env
     = (Inr \<lparr>valid = True, error = None\<rparr>,
        (client_for ''alpha'' None)\<lparr>workspaceRef := Some ''/workspace/7''\<rparr>,
        fresh_env\<lparr>calls := [subscription_request,
                               workspace_query_request (client_for ''alpha'' None),
                               workspace_list_request]\<rparr>)"
    using alpha_team_matches [of "[alpha_team]"]
    by (simp add: validateCredentials_def pingSubscription_def checkWorkspace_def
        queryWorkspace_def listWorkspaces_def listing_backend_def await_stub ok_def listed_def
        results_of_def fresh_env_def)
       (simp add: alpha_team_def objectId_def show_nat_7)
  show ?thesis
    using run alpha_team_matches [of "[alpha_team]"] by (simp add: listed_def results_of_def)
qed

text \<open>
  C2, amended. After a successful request for the subscription, when the query by ID (a
  numeric token) or by exact name (any other token) returns a workspace, and the first
  workspace returned has an \<open>ObjectID\<close>, resolution returns the reference
  \<open>/workspace/<ObjectID>\<close> of that workspace, with no advisory. When the query returns none
  and a non-numeric, non-empty token occurs, both in lower case, in the name of a listed
  workspace, resolution takes the first such workspace and, if it has an \<open>ObjectID\<close>, returns
  its reference \<open>/workspace/<ObjectID>\<close>, again with no advisory. The advisory "Specified
  workspace ... not found, using ... instead" is given, with a valid outcome, when nothing
  matched and the first listed workspace is substituted; the reference is then made of the
  identifier found for that workspace, its \<open>ObjectID\<close> or the digits of its \<open>_ref\<close>. An
  \<open>ObjectID\<close> is taken below \<open>2^53\<close>. What resolution returns for a workspace without an
  identifier is not part of this statement.
\<close>

theorem workspace_resolution_advisory:
  assumes "raceSubscription b e = (Inr rsp, e1)" and "status rsp = 200" and "truthy (data rsp)"
    and "raceWorkspaceQuery b c e1 = (Inr chk, e2)"
  shows "(\<forall>w rest n. results_of (data chk) = w # rest \<and> ObjectID w = Some n \<and> n < 2 ^ 53 \<longrightarrow>
            validateCredentials b c e =
              (Inr \<lparr>valid = True, error = None\<rparr>,
               c\<lparr>workspaceRef := Some (''/workspace/'' @ show_nat n)\<rparr>, e2))
    \<and> (\<forall>lst e3 m n. results_of (data chk) = [] \<and> raceWorkspaceList b e2 = (Inr lst, e3)
            \<and> matchingWorkspace b c (results_of (data lst)) = Some m
            \<and> ObjectID m = Some n \<and> n < 2 ^ 53 \<longrightarrow>
            validateCredentials b c e =
              (Inr \<lparr>valid = True, error = None\<rparr>,
               c\<lparr>workspaceRef := Some (''/workspace/'' @ show_nat n)\<rparr>, e3)
            \<and> \<not> workspaceIsNumeric c \<and> workspace c \<noteq> []
            \<and> (\<exists>i < length (results_of (data lst)).
                  m = results_of (data lst) ! i \<and> name_matches b c m
                  \<and> (\<forall>j < i. \<not> name_matches b c (results_of (data lst) ! j)))
            \<and> (\<exists>nm. Name m = Some nm
                  \<and> (\<exists>pre post. toLowerCase b nm = pre @ toLowerCase b (workspace c) @ post)))
    \<and> (\<forall>lst e3 fw rest i. results_of (data chk) = [] \<and> raceWorkspaceList b e2 = (Inr lst, e3)
            \<and> results_of (data lst) = fw # rest \<and> matchingWorkspace b c (fw # rest) = None
            \<and> firstWorkspaceId fw = i \<and> id_truthy i \<and> (\<forall>n. i = IdNumber n \<longrightarrow> n < 2 ^ 53) \<longrightarrow>
            validateCredentials b c e =
              (Inr \<lparr>valid = True, error = Some (not_found_advisory c fw)\<rparr>,
               c\<lparr>workspaceRef := Some (''/workspace/'' @ show_id i)\<rparr>, e3)
            \<and> not_found_advisory c fw =
                ''Specified workspace '' @ [CHR 0x22] @ workspace c @ [CHR 0x22]
                  @ '' not found, using '' @ [CHR 0x22] @ show_name (Name fw) @ [CHR 0x22]
                  @ '' ('' @ show_id i @ '') instead'')"
proof (intro conjI allI impI)
  fix w rest n
  assume a: "results_of (data chk) = w # rest \<and> ObjectID w = Some n \<and> n < 2 ^ 53"
  then have "show_id (objectId w) = show_nat n"
    by (simp add: objectId_def)
  then show "validateCredentials b c e =
              (Inr \<lparr>valid = True, error = None\<rparr>,
               c\<lparr>workspaceRef := Some (''/workspace/'' @ show_nat n)\<rparr>, e2)"
    using a ping_then_check [OF assms(1-3), of c] resolved_by_query [OF assms(4), of w rest]
    by simp
next
  fix lst e3 m n
  assume a: "results_of (data chk) = [] \<and> raceWorkspaceList b e2 = (Inr lst, e3)
            \<and> matchingWorkspace b c (results_of (data lst)) = Some m
            \<and> ObjectID m = Some n \<and> n < 2 ^ 53"
  then obtain fw rest where ne: "results_of (data lst) = fw # rest"
    by (cases "results_of (data lst)") (auto simp add: matchingWorkspace_def split: if_splits)
  have ident: "show_id (objectId m) = show_nat n"
    using a by (simp add: objectId_def)
  show "validateCredentials b c e =
              (Inr \<lparr>valid = True, error = None\<rparr>,
               c\<lparr>workspaceRef := Some (''/workspace/'' @ show_nat n)\<rparr>, e3)"
    using a ne ident ping_then_check [OF assms(1-3), of c]
      resolved_by_listing [OF assms(4), of lst e3 fw rest] by simp
  show "\<not> workspaceIsNumeric c"
    using a matchingWorkspace_first by blast
  show "workspace c \<noteq> []"
    using a matchingWorkspace_first by blast
  show "\<exists>i < length (results_of (data lst)).
                  m = results_of (data lst) ! i \<and> name_matches b c m
                  \<and> (\<forall>j < i. \<not> name_matches b c (results_of (data lst) ! j))"
    using a matchingWorkspace_first by blast
  show "\<exists>nm. Name m = Some nm
                  \<and> (\<exists>pre post. toLowerCase b nm = pre @ toLowerCase b (workspace c) @ post)"
    using a matchingWorkspace_first by blast
next
  fix lst e3 fw rest i
  assume a: "results_of (data chk) = [] \<and> raceWorkspaceList b e2 = (Inr lst, e3)
            \<and> results_of (data lst) = fw # rest \<and> matchingWorkspace b c (fw # rest) = None
            \<and> firstWorkspaceId fw = i \<and> id_truthy i \<and> (\<forall>n. i = IdNumber n \<longrightarrow> n < 2 ^ 53)"
  show "validateCredentials b c e =
              (Inr \<lparr>valid = True, error = Some (not_found_advisory c fw)\<rparr>,
               c\<lparr>workspaceRef := Some (''/workspace/'' @ show_id i)\<rparr>, e3)"
    using a ping_then_check [OF assms(1-3), of c]
      resolved_by_listing [OF assms(4), of lst e3 fw rest] by simp
  show "not_found_advisory c fw =
                ''Specified workspace '' @ [CHR 0x22] @ workspace c @ [CHR 0x22]
                  @ '' not found, using '' @ [CHR 0x22] @ show_name (Name fw) @ [CHR 0x22]
                  @ '' ('' @ show_id i @ '') instead''"
    using a by (simp add: not_found_advisory_def)
qed

theorem workspace_resolution_advisory_witness:
  \<open>raceSubscription team_backend fresh_env
     = (Inr \<lparr>status = 200, data = JObj []\<rparr>, fresh_env\<lparr>calls := [subscription_request]\<rparr>)
   \<and> raceWorkspaceQuery team_backend (client_for ''42'' None)
        (fresh_env\<lparr>calls := [subscription_request]\<rparr>)
     = (Inr \<lparr>status = 200, data = listed [team_a]\<rparr>,
        fresh_env\<lparr>calls := [subscription_request, workspace_query_request (client_for ''42'' None)]\<rparr>)
   \<and> results_of (listed [team_a]) = [team_a] \<and> ObjectID team_a = Some 42 \<and> (42 :: nat) < 2 ^ 53
   \<and> validateCredentials team_backend (client_for ''42'' None) fresh_env
     = (Inr \<lparr>valid = True, error = None\<rparr>,
        (client_for ''42'' None)\<lparr>workspaceRef := Some ''/workspace/42''\<rparr>,
        fresh_env\<lparr>calls := [subscription_request, workspace_query_request (client_for ''42'' None)]\<rparr>)
   \<and> matchingWorkspace (listing_backend [alpha_team]) (client_for ''alpha'' None) [alpha_team]
     = Some alpha_team
   \<and> ObjectID alpha_team = Some 7 \<and> (7 :: nat) < 2 ^ 53
   \<and> validateCredentials (listing_backend [alpha_team]) (client_for ''alpha'' None) fresh_env
     = (Inr \<lparr>valid = True, error = None\<rparr>,
        (client_for ''alpha'' None)\<lparr>workspaceRef := Some ''/workspace/7''\<rparr>,
        fresh_env\<lparr>calls := [subscription_request,
                               workspace_query_request (client_for ''alpha'' None),
                               workspace_list_request]\<rparr>)
   \<and> matchingWorkspace (listing_backend [team_a, alpha_team]) (client_for ''NoSuchTeam'' None)
        [team_a, alpha_team] = None
   \<and> firstWorkspaceId team_a = IdNumber 42 \<and> id_truthy (IdNumber 42)
   \<and> validateCredentials (listing_backend [team_a, alpha_team]) (client_for ''NoSuchTeam'' None)
        fresh_env
     = (Inr \<lparr>valid = True,
             error = Some ''Specified workspace "NoSuchTeam" not found, using "Team A" (42) instead''\<rparr>,
        (client_for ''NoSuchTeam'' None)\<lparr>workspaceRef := Some ''/workspace/42''\<rparr>,
        fresh_env\<lparr>calls := [subscription_request,
                               workspace_query_request (client_for ''NoSuchTeam'' None),
                               workspace_list_request]\<rparr>)\<close>
proof -
  let ?e1 = "fresh_env\<lparr>calls := [subscription_request]\<rparr>"
  have ping: "raceSubscription team_backend fresh_env = (Inr \<lparr>status = 200, data = JObj []\<rparr>, ?e1)"
    by (simp add: team_backend_def await_stub ok_def fresh_env_def)
  have query: "raceWorkspaceQuery team_backend (client_for ''42'' None) ?e1
     = (Inr \<lparr>status = 200, data = listed [team_a]\<rparr>,
        fresh_env\<lparr>calls := [subscription_request, workspace_query_request (client_for ''42'' None)]\<rparr>)"
    by (simp add: team_backend_def await_stub ok_def fresh_env_def)
  have found: "results_of (listed [team_a]) = [team_a]"
    by (simp add: results_of_def listed_def)
  have id42: "ObjectID team_a = Some 42" "(42 :: nat) < 2 ^ 53"
    by (simp_all add: team_a_def)
  have id7: "ObjectID alpha_team = Some 7" "(7 :: nat) < 2 ^ 53"
    by (simp_all add: alpha_team_def)
  have exact: "validateCredentials team_backend (client_for ''42'' None) fresh_env
     = (Inr \<lparr>valid = True, error = None\<rparr>,
        (client_for ''42'' None)\<lparr>workspaceRef := Some ''/workspace/42''\<rparr>,
        fresh_env\<lparr>calls := [subscription_request, workspace_query_request (client_for ''42'' None)]\<rparr>)"
    using workspace_resolution_advisory [OF ping _ _ query, THEN conjunct1, rule_format,
        of team_a "[]" 42] found id42
    by (simp add: show_nat_42)
  have lping: "raceSubscription (listing_backend ws) fresh_env
      = (Inr \<lparr>status = 200, data = JObj []\<rparr>, ?e1)" for ws
    by (simp add: listing_backend_def await_stub ok_def fresh_env_def)
  have lquery: "raceWorkspaceQuery (listing_backend ws) c ?e1
     = (Inr \<lparr>status = 200, data = listed []\<rparr>,
        fresh_env\<lparr>calls := [subscription_request, workspace_query_request c]\<rparr>)" for ws c
    by (simp add: listing_backend_def await_stub ok_def fresh_env_def)
  have llist: "raceWorkspaceList (listing_backend ws)
        (fresh_env\<lparr>calls := [subscription_request, workspace_query_request c]\<rparr>)
     = (Inr \<lparr>status = 200, data = listed ws\<rparr>,
        fresh_env\<lparr>calls := [subscription_request, workspace_query_request c,
                               workspace_list_request]\<rparr>)" for ws c
    by (simp add: listing_backend_def await_stub ok_def fresh_env_def)
  have results: "results_of (listed ws) = ws" for ws
    by (simp add: results_of_def listed_def)
  have substring: "validateCredentials (listing_backend [alpha_team]) (client_for ''alpha'' None)
        fresh_env
     = (Inr \<lparr>valid = True, error = None\<rparr>,
        (client_for ''alpha'' None)\<lparr>workspaceRef := Some ''/workspace/7''\<rparr>,
        fresh_env\<lparr>calls := [subscription_request,
                               workspace_query_request (client_for ''alpha'' None),
                               workspace_list_request]\<rparr>)"
    using workspace_resolution_advisory [OF lping _ _ lquery, THEN conjunct2, THEN conjunct1,
        rule_format, of "[alpha_team]" "client_for ''alpha'' None" _ _ alpha_team 7]
      llist [of "[alpha_team]" "client_for ''alpha'' None"] alpha_team_matches [of "[alpha_team]"]
      id7
    by (simp add: results show_nat_7)
  have nomatch: "matchingWorkspace (listing_backend [team_a, alpha_team])
      (client_for ''NoSuchTeam'' None) [team_a, alpha_team] = None"
    by (simp add: matchingWorkspace_def name_matches_def alpha_team_def team_a_def client_for_def
        RallyClient_def is_digit_def listing_backend_def stub_backend_def ascii_toLowerCase_def
        to_lower_char_def)
  have ident: "firstWorkspaceId team_a = IdNumber 42" "id_truthy (IdNumber 42)"
    by (simp_all add: team_a_def firstWorkspaceId_def objectId_def)
  have advisory: \<open>not_found_advisory (client_for ''NoSuchTeam'' None) team_a
      = ''Specified workspace "NoSuchTeam" not found, using "Team A" (42) instead''\<close>
    by (simp add: not_found_advisory_def ident client_for_fields show_name_def show_nat_42)
       (simp add: team_a_def)
  have first: \<open>validateCredentials (listing_backend [team_a, alpha_team])
        (client_for ''NoSuchTeam'' None) fresh_env
     = (Inr \<lparr>valid = True,
             error = Some ''Specified workspace "NoSuchTeam" not found, using "Team A" (42) instead''\<rparr>,
        (client_for ''NoSuchTeam'' None)\<lparr>workspaceRef := Some ''/workspace/42''\<rparr>,
        fresh_env\<lparr>calls := [subscription_request,
                               workspace_query_request (client_for ''NoSuchTeam'' None),
                               workspace_list_request]\<rparr>)\<close>
    using workspace_resolution_advisory [OF lping _ _ lquery, THEN conjunct2, THEN conjunct2,
        rule_format, of "[team_a, alpha_team]" "client_for ''NoSuchTeam'' None" _ _ team_a
        "[alpha_team]" "IdNumber 42"]
      llist [of "[team_a, alpha_team]" "client_for ''NoSuchTeam'' None"] nomatch ident
    by (simp add: results advisory show_nat_42)
  show ?thesis
    by (intro conjI ping query found id42 exact alpha_team_matches id7 substring nomatch ident
        first)
qed

subsection \<open>The first listed workspace\<close>

text \<open>
  C3. With the token \<open>NoSuchTeam\<close> and a listing whose first workspace, "Alpha", has no
  \<open>ObjectID\<close> and a \<open>_ref\<close> without digits after \<open>/workspace/\<close>, \<open>validateCredentials\<close>
  still answers valid: the advisory names "Alpha" and the identifier "undefined", and the
  reference cached is \<open>/workspace/undefined\<close>. Where the \<open>_ref\<close> has the digits, they are
  taken as the identifier.
\<close>

theorem first_workspace_without_id:
  \<open>validateCredentials (listing_backend alpha_beta) (client_for ''NoSuchTeam'' None) fresh_env
     = (Inr \<lparr>valid = True,
             error = Some ''Specified workspace "NoSuchTeam" not found, using "Alpha" (undefined) instead''\<rparr>,
        (client_for ''NoSuchTeam'' None)\<lparr>workspaceRef := Some ''/workspace/undefined''\<rparr>,
        fresh_env\<lparr>calls := [subscription_request,
                               workspace_query_request (client_for ''NoSuchTeam'' None),
                               workspace_list_request]\<rparr>)
   \<and> firstWorkspaceId \<lparr>Name = Some ''Alpha'', ObjectID = None,
         ref = Some ''https://rally1.rallydev.com/slm/webservice/v2.0/workspace/12345''\<rparr>
     = IdText ''12345''\<close>
proof -
  have nomatch: "matchingWorkspace (listing_backend alpha_beta) (client_for ''NoSuchTeam'' None)
      alpha_beta = None"
    by (simp add: matchingWorkspace_def name_matches_def alpha_beta_def client_for_def
        RallyClient_def is_digit_def listing_backend_def stub_backend_def ascii_toLowerCase_def
        to_lower_char_def)
  have advisory: \<open>not_found_advisory (client_for ''NoSuchTeam'' None) (hd alpha_beta)
      = ''Specified workspace "NoSuchTeam" not found, using "Alpha" (undefined) instead''\<close>
    by (simp add: not_found_advisory_def alpha_beta_def client_for_fields show_name_def
        firstWorkspaceId_def objectId_def str_truthy_def is_digit_def)
  have ident: "show_id (firstWorkspaceId (hd alpha_beta)) = ''undefined''"
    by (simp add: alpha_beta_def firstWorkspaceId_def objectId_def str_truthy_def is_digit_def)
  have run: "validateCredentials (listing_backend alpha_beta) (client_for ''NoSuchTeam'' None) fresh_env
     = (Inr \<lparr>valid = True, error = Some (not_found_advisory (client_for ''NoSuchTeam'' None) (hd alpha_beta))\<rparr>,
        (client_for ''NoSuchTeam'' None)\<lparr>workspaceRef :=
           Some (''/workspace/'' @ show_id (firstWorkspaceId (hd alpha_beta)))\<rparr>,
        fresh_env\<lparr>calls := [subscription_request,
                               workspace_query_request (client_for ''NoSuchTeam'' None),
                               workspace_list_request]\<rparr>)"
    using nomatch
    by (simp add: validateCredentials_def pingSubscription_def checkWorkspace_def
        queryWorkspace_def listWorkspaces_def listing_backend_def await_stub ok_def listed_def
        results_of_def fresh_env_def alpha_beta_def)
  have from_ref: "firstWorkspaceId \<lparr>Name = Some ''Alpha'', ObjectID = None,
         ref = Some ''https://rally1.rallydev.com/slm/webservice/v2.0/workspace/12345''\<rparr>
     = IdText ''12345''"
    by (simp add: firstWorkspaceId_def objectId_def str_truthy_def is_digit_def)
  show ?thesis
    using run from_ref by (simp add: advisory ident)
qed

subsection \<open>The outcomes of validateCredentials\<close>




subsection \<open>Resolution on demand and the cached reference\<close>


lemma client_method_effect:
  assumes "checkInitialize b c e = (u, c1, e1)"
  shows "fst (snd (client_method b f build ex c e)) = c1
    \<and> calls (snd (snd (client_method b f build ex c e)))
        = calls e1 @ (case build c1 of Inl err \<Rightarrow> [] | Inr rq \<Rightarrow> [rq])"
proof (cases "build c1")
  case (Inl err)
  then show ?thesis using client_method_throws [OF assms, of build err f ex] by simp
next
  case (Inr rq)
  then show ?thesis using client_method_request [OF assms, of build rq f ex] by simp
qed

lemma operation_request_fun:
  "operation_request (GetStories q) = (\<lambda>c. Inr (getStories_request q c))"
  "operation_request (GetStory i) = (\<lambda>c. Inr (getStory_request i c))"
  "operation_request (CreateStory d) = (\<lambda>c. Inr (createStory_request d c))"
  "operation_request (UpdateStory i d) = (\<lambda>c. Inr (updateStory_request i d))"
  "operation_request (DeleteStory i) = (\<lambda>c. Inr (deleteStory_request i))"
  "operation_request (GetRelationships i) = (\<lambda>c. Inr (getRelationships_request i c))"
  "operation_request (CreateRelationship s t k)
     = (\<lambda>c. relationship_request createRelationship_updateData s t k)"
  "operation_request (RemoveRelationship s t k)
     = (\<lambda>c. relationship_request removeRelationship_updateData s t k)"
  by (rule ext, simp)+

lemma run_operation_frame:
  "\<exists>f ex. run_operation b x c e = client_method b f (operation_request x) ex c e"
proof (cases x)
  case (GetStories q)
  then show ?thesis
    unfolding GetStories operation_request_fun run_operation.simps getStories_def by blast
next
  case (GetStory i)
  then show ?thesis
    unfolding GetStory operation_request_fun run_operation.simps getStory_def by blast
next
  case (CreateStory d)
  then show ?thesis
    unfolding CreateStory operation_request_fun run_operation.simps createStory_def by blast
next
  case (UpdateStory i d)
  then show ?thesis
    unfolding UpdateStory operation_request_fun run_operation.simps updateStory_def by blast
next
  case (DeleteStory i)
  then show ?thesis
    unfolding DeleteStory operation_request_fun run_operation.simps deleteStory_def by blast
next
  case (GetRelationships i)
  then show ?thesis
    unfolding GetRelationships operation_request_fun run_operation.simps getRelationships_def
    by blast
next
  case (CreateRelationship s t k)
  then show ?thesis
    unfolding CreateRelationship operation_request_fun run_operation.simps createRelationship_def
    by blast
next
  case (RemoveRelationship s t k)
  then show ?thesis
    unfolding RemoveRelationship operation_request_fun run_operation.simps removeRelationship_def
    by blast
qed

lemma run_operation_effect:
  assumes "checkInitialize b c e = (u, c1, e1)"
  shows "fst (snd (run_operation b x c e)) = c1
    \<and> calls (snd (snd (run_operation b x c e))) = calls e1 @ issued x c1"
proof -
  obtain f ex where "run_operation b x c e = client_method b f (operation_request x) ex c e"
    using run_operation_frame by blast
  then show ?thesis
    using client_method_effect [OF assms, of f "operation_request x" ex]
    by (simp add: issued_def)
qed

lemma issued_not_resolution:
  "rq \<in> set (issued x c) \<Longrightarrow> rq \<notin> resolution_requests c'"
proof -
  assume a: "rq \<in> set (issued x c)"
  have "url rq \<noteq> ''/subscription'' \<and> url rq \<noteq> ''/workspace''"
    using a
    by (cases x)
      (auto simp add: issued_def getStories_request_def getStory_request_def
        createStory_request_def updateStory_request_def deleteStory_request_def
        getRelationships_request_def relationship_request_def artifactType_def
        split: sum.splits option.splits)
  then show ?thesis
    by (auto simp add: resolution_requests_def subscription_request_def
        workspace_query_request_def workspace_list_request_def)
qed

lemma run_operations_cached:
  assumes "str_truthy (workspaceRef c)"
  shows "fst (run_operations b xs c e) = c
    \<and> calls (snd (run_operations b xs c e)) = calls e @ concat (map (\<lambda>x. issued x c) xs)"
proof (induction xs arbitrary: e)
  case Nil
  show ?case by simp
next
  case (Cons x xs)
  obtain r c' e' where step: "run_operation b x c e = (r, c', e')"
    by (cases "run_operation b x c e") auto
  have init: "checkInitialize b c e = (Inr (), c, e)"
    using assms by (rule checkInitialize_cached)
  have "c' = c \<and> calls e' = calls e @ issued x c"
    using run_operation_effect [OF init, of x] step by simp
  then show ?case
    using Cons.IH [of e'] step by simp
qed

lemma to_json_props_first:
  "map_of ps k = Some v \<Longrightarrow> v \<noteq> JUndefined \<Longrightarrow> map_of (to_json_props ps) k = Some (to_json v)"
proof (induction ps)
  case Nil
  then show ?case by simp
next
  case (Cons p ps)
  obtain k' v' where p: "p = (k', v')" by (cases p)
  show ?case
  proof (cases "k' = k")
    case True
    then show ?thesis using Cons.prems p by simp
  next
    case False
    then show ?thesis using Cons p by simp
  qed
qed

lemma createStory_carries:
  "get_prop (get_prop (sent_story (createStory_request d c)) ''Workspace'') ''_ref''
     = opt_str (workspaceRef c)"
proof -
  let ?w = "JObj [(''_ref'', opt_str (workspaceRef c))]"
  let ?p = "js_or (get_prop (JObj d) ''Project'')
              (case projectRef c of None \<Rightarrow> JUndefined | Some r \<Rightarrow> JObj [(''_ref'', JStr r)])"
  have "map_of (set_prop (set_prop d ''Workspace'' ?w) ''Project'' ?p) ''Workspace'' = Some ?w"
    by (simp add: map_of_set_prop)
  then have "map_of (to_json_props (set_prop (set_prop d ''Workspace'' ?w) ''Project'' ?p))
      ''Workspace'' = Some (to_json ?w)"
    by (rule to_json_props_first) simp
  then have "get_prop (sent_story (createStory_request d c)) ''Workspace'' = to_json ?w"
    by (simp add: sent_story_def createStory_request_def createStory_payload_def)
  then show ?thesis
    by (simp add: opt_str_def split: option.splits)
qed

lemma defined_params_absent:
  "k \<notin> fst ` set ps \<Longrightarrow> map_of (defined_params ps) k = None"
  by (induction ps rule: defined_params.induct) auto

lemma map_of_defined_params:
  "distinct (map fst ps) \<Longrightarrow>
   map_of (defined_params ps) k = (case map_of ps k of None \<Rightarrow> None | Some v \<Rightarrow> v)"
proof (induction ps rule: defined_params.induct)
  case 1
  then show ?case by simp
next
  case (2 k' ps)
  then show ?case by (auto simp add: defined_params_absent)
next
  case (3 k' v ps)
  then show ?case by simp
qed

lemma spread_distinct:
  "distinct (map fst ps) \<Longrightarrow>
   distinct (map fst (fold (\<lambda>(k, v) ps. set_prop ps k (Some v)) q ps))"
  by (induction q arbitrary: ps) (auto simp add: distinct_set_prop)

lemma spread_other:
  "k \<notin> fst ` set q \<Longrightarrow>
   map_of (fold (\<lambda>(k, v) ps. set_prop ps k (Some v)) q ps) k = map_of ps k"
  by (induction q arbitrary: ps) (auto simp add: map_of_set_prop)

lemma set_own_property_order: "set (own_property_order ps) = set ps"
  by (auto simp add: own_property_order_def)

lemma distinct_own_property_order:
  assumes "distinct (map fst ps)"
  shows "distinct (map fst (own_property_order ps))"
proof -
  have d: "distinct ps" and inj: "inj_on fst (set ps)"
    using assms by (simp_all add: distinct_map)
  have "distinct (own_property_order ps)"
    using d by (auto simp add: own_property_order_def)
  then show ?thesis
    using inj by (simp add: distinct_map set_own_property_order)
qed

lemma map_of_own_property_order:
  assumes "distinct (map fst ps)"
  shows "map_of (own_property_order ps) = map_of ps"
  using assms distinct_own_property_order [OF assms] set_own_property_order [of ps]
    map_of_inject_set by blast

lemma getStories_carries:
  assumes "''workspace'' \<notin> fst ` set queryParams"
  shows "map_of (params (getStories_request queryParams c)) ''workspace'' = workspaceRef c"
proof -
  let ?init = "[(''workspace'', workspaceRef c), (''project'', projectRef c)]"
  let ?spread = "fold (\<lambda>(k, v) ps. set_prop ps k (Some v)) queryParams ?init"
  have "distinct (map fst ?init)" by simp
  then have d: "distinct (map fst ?spread)"
    by (rule spread_distinct)
  have "map_of (own_property_order ?spread) ''workspace'' = Some (workspaceRef c)"
    using map_of_own_property_order [OF d] spread_other [OF assms, of ?init] by simp
  then show ?thesis
    using map_of_defined_params [OF distinct_own_property_order [OF d], of "''workspace''"]
    by (simp add: getStories_request_def)
qed

text \<open>
  The order of the parameters of \<open>getStories\<close>: a key that is an array index comes before
  \<open>workspace\<close>, the other keys of the caller after it.
\<close>

lemma getStories_parameter_order:
  "params (getStories_request [(''query'', ''(Name = x)''), (''7'', ''y''), (''07'', ''z'')]
     ((client_for ''42'' None)\<lparr>workspaceRef := Some ''/workspace/42''\<rparr>))
   = [(''7'', ''y''), (''workspace'', ''/workspace/42''), (''query'', ''(Name = x)''),
      (''07'', ''z'')]"
  by (simp add: getStories_request_def own_property_order_def is_array_index_def is_digit_def
      decimal_value_def digit_value_def projectRef_def client_for_fields)

lemma getStory_carries:
  "map_of (params (getStory_request i c)) ''workspace'' = workspaceRef c"
  using map_of_defined_params [of "[(''workspace'', workspaceRef c), (''project'', projectRef c)]"
      "''workspace''"]
  by (simp add: getStory_request_def split: option.splits)

lemma getRelationships_carries:
  "map_of (params (getRelationships_request i c)) ''workspace'' = workspaceRef c"
  by (cases "workspaceRef c") (simp_all add: getRelationships_request_def)

text \<open>
  C4. Each of the eight operations of the client, on an instance whose workspace reference
  is not set, first runs \<open>validateCredentials\<close> (its requests begin with the one for the
  subscription and are requests of the resolution) and then issues its own request, built
  from the client as the resolution left it. A valid outcome leaves a reference
  \<open>/workspace/...\<close> cached, an outcome that is not valid leaves the client as it was. From a
  client with a cached reference, also the one a valid resolution leaves, every sequence of
  operations keeps the client unchanged and issues the operations' own requests and no
  others: none is a request of the resolution. The workspace that the requests of
  \<open>getStory\<close>, \<open>getRelationships\<close>, \<open>createStory\<close> and \<open>getStories\<close> (unless its query
  parameters name one) carry is the client's reference, so a request carries one only after
  a resolution that succeeded.
\<close>

theorem workspace_resolved_on_demand:
  assumes "validateCredentials b c e = (Inr v, c1, e1)"
  shows "(\<not> str_truthy (workspaceRef c) \<longrightarrow>
            fst (snd (run_operation b x c e)) = c1
            \<and> calls (snd (snd (run_operation b x c e))) = calls e1 @ issued x c1
            \<and> (\<exists>rs. calls e1 = calls e @ subscription_request # rs
                      \<and> set (subscription_request # rs) \<subseteq> resolution_requests c))
    \<and> (valid v \<longrightarrow> (\<exists>i. c1 = c\<lparr>workspaceRef := Some (''/workspace/'' @ i)\<rparr>)
                    \<and> str_truthy (workspaceRef c1))
    \<and> (\<not> valid v \<longrightarrow> c1 = c)
    \<and> (\<forall>xs. str_truthy (workspaceRef c) \<longrightarrow>
          fst (run_operations b xs c e) = c
          \<and> calls (snd (run_operations b xs c e)) = calls e @ concat (map (\<lambda>x. issued x c) xs)
          \<and> (\<forall>rq \<in> set (concat (map (\<lambda>x. issued x c) xs)). rq \<notin> resolution_requests c))
    \<and> (\<forall>xs. valid v \<longrightarrow>
          fst (run_operations b xs c1 e1) = c1
          \<and> calls (snd (run_operations b xs c1 e1)) = calls e1 @ concat (map (\<lambda>x. issued x c1) xs)
          \<and> (\<forall>rq \<in> set (concat (map (\<lambda>x. issued x c1) xs)). rq \<notin> resolution_requests c1))
    \<and> (\<forall>i d q. map_of (params (getStory_request i c1)) ''workspace'' = workspaceRef c1
          \<and> map_of (params (getRelationships_request i c1)) ''workspace'' = workspaceRef c1
          \<and> get_prop (get_prop (sent_story (createStory_request d c1)) ''Workspace'') ''_ref''
              = opt_str (workspaceRef c1)
          \<and> (''workspace'' \<notin> fst ` set q \<longrightarrow>
                map_of (params (getStories_request q c1)) ''workspace'' = workspaceRef c1))"
proof -
  have demand: "\<not> str_truthy (workspaceRef c) \<longrightarrow>
            fst (snd (run_operation b x c e)) = c1
            \<and> calls (snd (snd (run_operation b x c e))) = calls e1 @ issued x c1
            \<and> (\<exists>rs. calls e1 = calls e @ subscription_request # rs
                      \<and> set (subscription_request # rs) \<subseteq> resolution_requests c)"
  proof
    assume uncached: "\<not> str_truthy (workspaceRef c)"
    then have init: "checkInitialize b c e = (Inr (), c1, e1)"
      using assms by (simp add: checkInitialize_def)
    have "\<exists>rs. calls e1 = calls e @ subscription_request # rs
                      \<and> set (subscription_request # rs) \<subseteq> resolution_requests c"
      using validateCredentials_effect [OF assms] by (auto simp add: resolution_requests_def)
    then show "fst (snd (run_operation b x c e)) = c1
            \<and> calls (snd (snd (run_operation b x c e))) = calls e1 @ issued x c1
            \<and> (\<exists>rs. calls e1 = calls e @ subscription_request # rs
                      \<and> set (subscription_request # rs) \<subseteq> resolution_requests c)"
      using run_operation_effect [OF init, of x] by simp
  qed
  have success: "valid v \<longrightarrow> (\<exists>i. c1 = c\<lparr>workspaceRef := Some (''/workspace/'' @ i)\<rparr>)
                    \<and> str_truthy (workspaceRef c1)"
  proof
    assume "valid v"
    then obtain i where i: "c1 = c\<lparr>workspaceRef := Some (''/workspace/'' @ i)\<rparr>"
      using validateCredentials_client [OF assms] by blast
    then have "workspaceRef c1 = Some (''/workspace/'' @ i)"
      by simp
    then have "str_truthy (workspaceRef c1)"
      by (simp add: str_truthy_def)
    then show "(\<exists>i. c1 = c\<lparr>workspaceRef := Some (''/workspace/'' @ i)\<rparr>)
                    \<and> str_truthy (workspaceRef c1)"
      using i by blast
  qed
  have failure: "\<not> valid v \<longrightarrow> c1 = c"
    using validateCredentials_client [OF assms] by simp
  have reuse: "str_truthy (workspaceRef c') \<longrightarrow>
          fst (run_operations b xs c' e') = c'
          \<and> calls (snd (run_operations b xs c' e')) = calls e' @ concat (map (\<lambda>x. issued x c') xs)
          \<and> (\<forall>rq \<in> set (concat (map (\<lambda>x. issued x c') xs)). rq \<notin> resolution_requests c')"
    for xs c' e'
    using run_operations_cached [of c' b xs e'] issued_not_resolution by auto
  have carried: "map_of (params (getStory_request i c1)) ''workspace'' = workspaceRef c1
          \<and> map_of (params (getRelationships_request i c1)) ''workspace'' = workspaceRef c1
          \<and> get_prop (get_prop (sent_story (createStory_request d c1)) ''Workspace'') ''_ref''
              = opt_str (workspaceRef c1)
          \<and> (''workspace'' \<notin> fst ` set q \<longrightarrow>
                map_of (params (getStories_request q c1)) ''workspace'' = workspaceRef c1)"
    for i d q
    using getStory_carries getRelationships_carries createStory_carries getStories_carries
    by blast
  have cached: "\<forall>xs. str_truthy (workspaceRef c) \<longrightarrow>
          fst (run_operations b xs c e) = c
          \<and> calls (snd (run_operations b xs c e)) = calls e @ concat (map (\<lambda>x. issued x c) xs)
          \<and> (\<forall>rq \<in> set (concat (map (\<lambda>x. issued x c) xs)). rq \<notin> resolution_requests c)"
    using reuse [of c _ e] by (intro allI)
  have afterwards: "\<forall>xs. valid v \<longrightarrow>
          fst (run_operations b xs c1 e1) = c1
          \<and> calls (snd (run_operations b xs c1 e1)) = calls e1 @ concat (map (\<lambda>x. issued x c1) xs)
          \<and> (\<forall>rq \<in> set (concat (map (\<lambda>x. issued x c1) xs)). rq \<notin> resolution_requests c1)"
  proof (intro allI impI)
    fix xs
    assume "valid v"
    then have "str_truthy (workspaceRef c1)" using success by simp
    then show "fst (run_operations b xs c1 e1) = c1
          \<and> calls (snd (run_operations b xs c1 e1)) = calls e1 @ concat (map (\<lambda>x. issued x c1) xs)
          \<and> (\<forall>rq \<in> set (concat (map (\<lambda>x. issued x c1) xs)). rq \<notin> resolution_requests c1)"
      using reuse [of c1 xs e1] by simp
  qed
  have requests: "\<forall>i d q. map_of (params (getStory_request i c1)) ''workspace'' = workspaceRef c1
          \<and> map_of (params (getRelationships_request i c1)) ''workspace'' = workspaceRef c1
          \<and> get_prop (get_prop (sent_story (createStory_request d c1)) ''Workspace'') ''_ref''
              = opt_str (workspaceRef c1)
          \<and> (''workspace'' \<notin> fst ` set q \<longrightarrow>
                map_of (params (getStories_request q c1)) ''workspace'' = workspaceRef c1)"
    using carried by (intro allI)
  show ?thesis
    by (intro conjI demand success failure cached afterwards requests)
qed

theorem workspace_resolved_on_demand_witness:
  "validateCredentials team_backend (client_for ''42'' None) fresh_env
     = (Inr \<lparr>valid = True, error = None\<rparr>,
        (client_for ''42'' None)\<lparr>workspaceRef := Some ''/workspace/42''\<rparr>,
        fresh_env\<lparr>calls := [subscription_request, workspace_query_request (client_for ''42'' None)]\<rparr>)
   \<and> \<not> str_truthy (workspaceRef (client_for ''42'' None))
   \<and> fst (snd (run_operation team_backend (GetStory ''US1'') (client_for ''42'' None) fresh_env))
     = (client_for ''42'' None)\<lparr>workspaceRef := Some ''/workspace/42''\<rparr>
   \<and> calls (snd (snd (run_operation team_backend (GetStory ''US1'') (client_for ''42'' None)
         fresh_env)))
     = [subscription_request, workspace_query_request (client_for ''42'' None),
        \<lparr>verb = ''GET'', url = ''/HierarchicalRequirement/US1'',
         params = [(''workspace'', ''/workspace/42'')], body = JUndefined\<rparr>]
   \<and> calls (snd (run_operations team_backend [GetStory ''US1'', DeleteStory ''US2'']
         ((client_for ''42'' None)\<lparr>workspaceRef := Some ''/workspace/42''\<rparr>)
         (fresh_env\<lparr>calls := [subscription_request,
                                  workspace_query_request (client_for ''42'' None)]\<rparr>)))
     = [subscription_request, workspace_query_request (client_for ''42'' None),
        \<lparr>verb = ''GET'', url = ''/HierarchicalRequirement/US1'',
         params = [(''workspace'', ''/workspace/42'')], body = JUndefined\<rparr>,
        \<lparr>verb = ''DELETE'', url = ''/HierarchicalRequirement/US2'', params = [],
         body = JUndefined\<rparr>]"
proof -
  let ?c = "client_for ''42'' None"
  let ?c1 = "?c\<lparr>workspaceRef := Some ''/workspace/42''\<rparr>"
  let ?e1 = "fresh_env\<lparr>calls := [subscription_request, workspace_query_request ?c]\<rparr>"
  note inst = workspace_resolved_on_demand [OF team_resolution, of "GetStory ''US1''"]
  have uncached: "\<not> str_truthy (workspaceRef ?c)"
    by (simp add: client_for_fields str_truthy_def)
  have story: "issued (GetStory ''US1'') ?c1
      = [\<lparr>verb = ''GET'', url = ''/HierarchicalRequirement/US1'',
          params = [(''workspace'', ''/workspace/42'')], body = JUndefined\<rparr>]"
    by (simp add: issued_def getStory_request_def projectRef_def client_for_fields)
  have removal: "issued (DeleteStory ''US2'') ?c1
      = [\<lparr>verb = ''DELETE'', url = ''/HierarchicalRequirement/US2'', params = [],
          body = JUndefined\<rparr>]"
    by (simp add: issued_def deleteStory_request_def)
  have first: "fst (snd (run_operation team_backend (GetStory ''US1'') ?c fresh_env)) = ?c1
      \<and> calls (snd (snd (run_operation team_backend (GetStory ''US1'') ?c fresh_env)))
          = calls ?e1 @ issued (GetStory ''US1'') ?c1"
    using inst [THEN conjunct1, rule_format, OF uncached] by simp
  have later: "calls (snd (run_operations team_backend [GetStory ''US1'', DeleteStory ''US2'']
          ?c1 ?e1))
      = calls ?e1 @ concat (map (\<lambda>x. issued x ?c1) [GetStory ''US1'', DeleteStory ''US2''])"
    using inst [THEN conjunct2, THEN conjunct2, THEN conjunct2, THEN conjunct2, THEN conjunct1,
        THEN spec, of "[GetStory ''US1'', DeleteStory ''US2'']"]
    by simp
  show ?thesis
    using team_resolution uncached first later
    by (simp add: story removal fresh_env_def)
qed

end
